theory Spec2Isabelle
  imports Main
begin

section \<open>NodeLocation\<close>

text \<open>
  A location is an immutable path into the document tree. A path component is a number
  (a child index) or a string (an attribute name): the TypeScript type
  \<^verbatim>\<open>(number | string)[]\<close>. Child indices are integers; the strict comparison
  \<^verbatim>\<open>!==\<close> of two components is inequality of this datatype (a number never equals
  a string).
\<close>

datatype component = Num int | Str string

datatype NodeLocation = NodeLocation (path: "component list")

definition loc_length :: "NodeLocation \<Rightarrow> nat" where
  "loc_length l = length (path l)"

text \<open>\<^verbatim>\<open>toIntArray\<close>: a string contributes its character codes, a number itself.\<close>

fun toIntArray :: "component list \<Rightarrow> int list" where
  "toIntArray [] = []"
| "toIntArray (Str s # arr) = map (\<lambda>c. int (of_char c)) s @ toIntArray arr"
| "toIntArray (Num n # arr) = n # toIntArray arr"

text \<open>
  \<^verbatim>\<open>hashCode\<close> is \<^verbatim>\<open>hashIntArrays(toIntArray(path))\<close>. The function
  \<^verbatim>\<open>hashIntArrays\<close> comes from the package blocky-common and is a parameter here.
\<close>

definition hashCode :: "(int list \<Rightarrow> int) \<Rightarrow> NodeLocation \<Rightarrow> int" where
  "hashCode hashIntArrays l = hashIntArrays (toIntArray (path l))"

text \<open>\<^verbatim>\<open>NodeLocation.equals\<close>: lengths, then hash codes, then the components one by one.\<close>

definition equals :: "(int list \<Rightarrow> int) \<Rightarrow> NodeLocation \<Rightarrow> NodeLocation \<Rightarrow> bool" where
  "equals hashIntArrays a b =
     (if loc_length a \<noteq> loc_length b then False
      else if hashCode hashIntArrays a \<noteq> hashCode hashIntArrays b then False
      else if list_ex (\<lambda>i. path a ! i \<noteq> path b ! i) [0..<loc_length a] then False
      else True)"

text \<open>
  \<^verbatim>\<open>NodeLocation.transform(base, location, delta = 1)\<close>. The four early returns of the
  source come first, in its order; the loop over \<^verbatim>\<open>i < base.length - 1\<close> is the
  \<open>list_ex\<close> over the indices. \<^verbatim>\<open>isNumber\<close> of both deciding components is the
  case distinction on the constructors.
\<close>

definition transform :: "NodeLocation \<Rightarrow> NodeLocation \<Rightarrow> int \<Rightarrow> NodeLocation" where
  "transform base location delta =
     (if loc_length base > loc_length location then location
      else if loc_length base = 0 \<or> loc_length location = 0 then location
      else if list_ex (\<lambda>i. path base ! i \<noteq> path location ! i) [0..<loc_length base - 1]
        then location
      else
        let prefix = take (loc_length base - 1) (path base);
            suffix = drop (loc_length base) (path location);
            baseLast = path base ! (length (path base) - 1);
            offsetAtIndex = path location ! (loc_length base - 1)
        in (case (baseLast, offsetAtIndex) of
              (Num bl, Num off) \<Rightarrow>
                (if bl \<le> off then NodeLocation (prefix @ [Num (off + delta)] @ suffix)
                 else NodeLocation (prefix @ [Num off] @ suffix))
            | _ \<Rightarrow> location))"


text \<open>
  The location \<open>loc\<close> with its index at depth \<open>d\<close> shifted by \<open>delta\<close>: the reading of
  ``shift loc's index at that depth by delta'' used to state the behaviour of
  \<open>transform\<close>. Only a number at a depth inside the path can be shifted.
\<close>

definition shiftAt :: "nat \<Rightarrow> int \<Rightarrow> NodeLocation \<Rightarrow> NodeLocation" where
  "shiftAt d delta loc =
     (if d < length (path loc)
      then (case path loc ! d of
              Num y \<Rightarrow> NodeLocation ((path loc)[d := Num (y + delta)])
            | Str s \<Rightarrow> loc)
      else loc)"

section \<open>Rich-text deltas\<close>

text \<open>
  Modelled from the spec: the Delta class (package quill-delta-es, imported by the
  controller and not part of the sources). Section 4.1 of the specification: a Delta is a
  finite sequence of operations \<^verbatim>\<open>retain(n, attrs?)\<close>, \<^verbatim>\<open>insert(s, attrs?)\<close>,
  \<^verbatim>\<open>delete(n)\<close>; a Text Model holds a Delta of string inserts, without zero-length
  operations and with adjacent operations of equal attributes merged.

  An attributes object is a list of key/value pairs (a JavaScript object with its keys in
  order); the empty list stands for an absent \<^verbatim>\<open>attributes\<close> field, since the
  builders never store an empty object.
\<close>

datatype attr_value = ABool bool | AStr string | ANull

type_synonym AttributesObject = "(string \<times> attr_value) list"

datatype op = Insert string AttributesObject | Retain nat AttributesObject | Delete nat

type_synonym Delta = "op list"

fun op_length :: "op \<Rightarrow> nat" where
  "op_length (Insert s a) = length s"
| "op_length (Retain n a) = n"
| "op_length (Delete n) = n"

fun op_attributes :: "op \<Rightarrow> AttributesObject" where
  "op_attributes (Insert s a) = a"
| "op_attributes (Retain n a) = a"
| "op_attributes (Delete n) = []"

fun op_take :: "nat \<Rightarrow> op \<Rightarrow> op" where
  "op_take n (Insert s a) = Insert (take n s) a"
| "op_take n (Retain m a) = Retain (min n m) a"
| "op_take n (Delete m) = Delete (min n m)"

fun op_drop :: "nat \<Rightarrow> op \<Rightarrow> op" where
  "op_drop n (Insert s a) = Insert (drop n s) a"
| "op_drop n (Retain m a) = Retain (m - n) a"
| "op_drop n (Delete m) = Delete (m - n)"

text \<open>
  Modelled from the spec: equality of attributes (``adjacent ops with equal attributes'';
  the deep equality of the delta package, not part of the sources): two attributes
  objects are equal when they have the same keys with the same values, whatever the
  order of the keys.
\<close>

definition isEqual :: "AttributesObject \<Rightarrow> AttributesObject \<Rightarrow> bool" where
  "isEqual a b = list_all (\<lambda>k. map_of a k = map_of b k) (map fst a @ map fst b)"

text \<open>
  Modelled from the spec: appending an operation to a delta (the method \<^verbatim>\<open>push\<close> of
  the delta package). The operation is merged into the last one when both are deletes, or
  both inserts or both retains with equal attributes (``adjacent ops with equal attributes
  are merged'').
\<close>

definition push :: "op \<Rightarrow> Delta \<Rightarrow> Delta" where
  "push newOp d =
     (if d = [] then [newOp]
      else (case (last d, newOp) of
              (Delete m, Delete n) \<Rightarrow> butlast d @ [Delete (m + n)]
            | (Insert s a, Insert s' a') \<Rightarrow>
                if isEqual a' a then butlast d @ [Insert (s @ s') a'] else d @ [newOp]
            | (Retain m a, Retain n a') \<Rightarrow>
                if isEqual a' a then butlast d @ [Retain (m + n) a'] else d @ [newOp]
            | _ \<Rightarrow> d @ [newOp]))"

text \<open>
  Modelled from the spec: the builders \<^verbatim>\<open>insert\<close>, \<^verbatim>\<open>retain\<close> and \<^verbatim>\<open>delete\<close>
  of the delta package. A length that is not positive
  adds nothing (``no zero-length ops''); lengths are natural numbers here, so that a
  difference such as \<^verbatim>\<open>textModel.length - startOffset\<close> that would be negative in the
  source is \<open>0\<close> and adds nothing either. The attributes argument is optional.
\<close>

definition Delta_insert :: "string \<Rightarrow> AttributesObject option \<Rightarrow> Delta \<Rightarrow> Delta" where
  "Delta_insert s attributes d =
     (if s = [] then d
      else push (Insert s (case attributes of None \<Rightarrow> [] | Some a \<Rightarrow> a)) d)"

definition Delta_retain :: "nat \<Rightarrow> AttributesObject option \<Rightarrow> Delta \<Rightarrow> Delta" where
  "Delta_retain n attributes d =
     (if n = 0 then d
      else push (Retain n (case attributes of None \<Rightarrow> [] | Some a \<Rightarrow> a)) d)"

definition Delta_delete :: "nat \<Rightarrow> Delta \<Rightarrow> Delta" where
  "Delta_delete n d = (if n = 0 then d else push (Delete n) d)"


text \<open>
  Modelled from the spec: \<^verbatim>\<open>length()\<close> of the delta package, ``total length of
  inserts''.
\<close>

definition Delta_length :: "Delta \<Rightarrow> nat" where
  "Delta_length d = sum_list (map (\<lambda>x. case x of Insert s a \<Rightarrow> length s | _ \<Rightarrow> 0) d)"

text \<open>
  Modelled from the spec: \<^verbatim>\<open>slice(start, end?)\<close> of the delta package, ``substring in
  Delta space''. The operations of the slice are
  the operations of the delta, cut at both ends; no \<open>end\<close> means up to the end.
\<close>

fun drop_ops :: "nat \<Rightarrow> Delta \<Rightarrow> Delta" where
  "drop_ops n [] = []"
| "drop_ops n (x # xs) =
     (if n = 0 then x # xs
      else if op_length x \<le> n then drop_ops (n - op_length x) xs
      else op_drop n x # xs)"

fun take_ops :: "nat \<Rightarrow> Delta \<Rightarrow> Delta" where
  "take_ops n [] = []"
| "take_ops n (x # xs) =
     (if n = 0 then []
      else if op_length x \<le> n then x # take_ops (n - op_length x) xs
      else [op_take n x])"

definition Delta_slice :: "nat \<Rightarrow> nat option \<Rightarrow> Delta \<Rightarrow> Delta" where
  "Delta_slice start stop d =
     (case stop of
        None \<Rightarrow> drop_ops start d
      | Some e \<Rightarrow> take_ops (e - start) (drop_ops start d))"

text \<open>
  Modelled from the spec: \<^verbatim>\<open>compose(other)\<close> of the delta package, ``standard OT
  composition (apply other to the document produced by this)''. The document is read character by character, each character with the
  attributes of its insert; the edit is applied to these characters; the result is written
  back with adjacent characters of equal attributes merged into one insert. A retain with
  attributes merges them into the characters it passes; ``setting an attribute value to
  null on a retain clears it''. What is left of the document after the last operation of
  the edit is kept. A retain or delete that reaches beyond the end of the document acts on
  the characters that are there.
\<close>

type_synonym atom = "char \<times> AttributesObject"

fun atoms :: "Delta \<Rightarrow> atom list" where
  "atoms [] = []"
| "atoms (Insert s a # d) = map (\<lambda>c. (c, a)) s @ atoms d"
| "atoms (x # d) = atoms d"

fun of_atoms :: "atom list \<Rightarrow> Delta" where
  "of_atoms [] = []"
| "of_atoms ((c, a) # rest) =
     (case of_atoms rest of
        Insert s a' # d \<Rightarrow>
          if isEqual a a' then Insert (c # s) a # d else Insert [c] a # Insert s a' # d
      | d \<Rightarrow> Insert [c] a # d)"

definition AttributeMap_compose ::
    "AttributesObject \<Rightarrow> AttributesObject \<Rightarrow> bool \<Rightarrow> AttributesObject" where
  "AttributeMap_compose a b keepNull =
     (if keepNull then b else filter (\<lambda>(k, v). v \<noteq> ANull) b)
       @ filter (\<lambda>(k, v). k \<notin> fst ` set b) a"

fun apply_edit :: "Delta \<Rightarrow> atom list \<Rightarrow> atom list" where
  "apply_edit [] doc = doc"
| "apply_edit (Retain n a # e) doc =
     map (\<lambda>(c, a0). (c, AttributeMap_compose a0 a False)) (take n doc)
       @ apply_edit e (drop n doc)"
| "apply_edit (Insert s a # e) doc = map (\<lambda>c. (c, a)) s @ apply_edit e doc"
| "apply_edit (Delete n # e) doc = apply_edit e (drop n doc)"

definition Delta_compose :: "Delta \<Rightarrow> Delta \<Rightarrow> Delta" where
  "Delta_compose d other = of_atoms (apply_edit other (atoms d))"

text \<open>
  A document is a delta of inserts only (invariant (c) of the Text Model). The characters
  of a document with their attribute maps, the order of the keys forgotten, are what the
  properties below speak about.
\<close>

definition isDocument :: "Delta \<Rightarrow> bool" where
  "isDocument d = list_all (\<lambda>x. case x of Insert s a \<Rightarrow> True | _ \<Rightarrow> False) d"

type_synonym attr_map = "string \<Rightarrow> attr_value option"

definition attrMaps :: "atom list \<Rightarrow> (char \<times> attr_map) list" where
  "attrMaps xs = map (\<lambda>(c, a). (c, map_of a)) xs"

definition chars :: "Delta \<Rightarrow> (char \<times> attr_map) list" where
  "chars d = attrMaps (atoms d)"

text \<open>
  The effect of an edit on characters with attribute maps: \<open>compose_map m a\<close> is the
  attribute map of a character with the map \<open>m\<close> after a retain with the attributes
  \<open>a\<close>, and \<open>apply_chars\<close> is \<open>apply_edit\<close> read on attribute maps. Both serve to
  state and prove the properties below; the program is modelled by \<open>Delta_compose\<close>.
\<close>

definition compose_map :: "attr_map \<Rightarrow> AttributesObject \<Rightarrow> attr_map" where
  "compose_map m a =
     (\<lambda>k. case map_of (filter (\<lambda>(k, v). v \<noteq> ANull) a) k of
            Some v \<Rightarrow> Some v
          | None \<Rightarrow> if k \<in> fst ` set a then None else m k)"

fun apply_chars :: "Delta \<Rightarrow> (char \<times> attr_map) list \<Rightarrow> (char \<times> attr_map) list" where
  "apply_chars [] doc = doc"
| "apply_chars (Retain n a # e) doc =
     map (\<lambda>(c, m). (c, compose_map m a)) (take n doc) @ apply_chars e (drop n doc)"
| "apply_chars (Insert s a # e) doc = map (\<lambda>c. (c, map_of a)) s @ apply_chars e doc"
| "apply_chars (Delete n # e) doc = apply_chars e (drop n doc)"

definition plainText :: "Delta \<Rightarrow> string" where
  "plainText d = map fst (atoms d)"

section \<open>Document, cursor and state\<close>

text \<open>
  Modelled from the spec: the classes BlockDataElement, CursorState and EditorState
  (packages blocky-data and model, not part of the sources), after Section 3 and
  Section 4.3 of the specification. A block element has a type tag \<^verbatim>\<open>t\<close>, an id
  (here \<open>blockId\<close>, since \<open>id\<close> is the identity function of HOL) and, when it is
  text-like, a Text Model under the attribute \<^verbatim>\<open>textContent\<close>. The document body is the
  list of its child blocks in document order; the model covers bodies whose blocks have no
  blocks nested inside them. The block index \<^verbatim>\<open>getBlockElementById\<close> is read off the
  body, so it has no orphan entries.
\<close>

record BlockDataElement =
  t :: string
  blockId :: string
  textContent :: "Delta option"

record CursorState =
  startId :: string
  startOffset :: nat
  endId :: string
  endOffset :: nat


definition isCollapsed :: "CursorState \<Rightarrow> bool" where
  "isCollapsed c = (startId c = endId c \<and> startOffset c = endOffset c)"


record EditorState =
  body :: "BlockDataElement list"
  cursorState :: "CursorState option"
  version :: nat

definition getBlockElementById :: "EditorState \<Rightarrow> string \<Rightarrow> BlockDataElement option" where
  "getBlockElementById st i = find (\<lambda>b. blockId b = i) (body st)"




text \<open>
  Modelled from the spec: \<^verbatim>\<open>splitCursorStateByBlocks\<close> of the state, which ``clips
  an open cursor into one span per crossed text-like block, in document order''.
\<close>

fun clipSpans :: "CursorState \<Rightarrow> BlockDataElement list \<Rightarrow> CursorState list" where
  "clipSpans c [] = []"
| "clipSpans c (b # rest) =
     (case textContent b of
        None \<Rightarrow> []
      | Some d \<Rightarrow>
          [\<lparr>startId = blockId b,
            startOffset = (if blockId b = startId c then startOffset c else 0),
            endId = blockId b,
            endOffset = (if blockId b = endId c then endOffset c else Delta_length d)\<rparr>])
     @ (if blockId b = endId c then [] else clipSpans c rest)"

definition splitCursorStateByBlocks :: "EditorState \<Rightarrow> CursorState \<Rightarrow> CursorState list" where
  "splitCursorStateByBlocks st c =
     clipSpans c (dropWhile (\<lambda>x. blockId x \<noteq> startId c) (body st))"

section \<open>Changeset\<close>

text \<open>
  Modelled from the spec: the class Changeset (package blocky-data, not part of the
  sources), after Section 4.2: a transactional builder that records operations and a
  requested cursor, then applies them. Nodes are recorded by their ids. \<^verbatim>\<open>apply\<close>
  executes the operations in recorded order, makes the requested cursor the current one
  (the current cursor is preserved when none was requested), re-normalizes the cursor
  when \<^verbatim>\<open>refreshCursor\<close> is set (offsets clamped to lengths) and increments the version.
  Locking and the event streams have no counterpart in the model.
\<close>

datatype operation = TextEdit string string Delta | RemoveNode string

record Changeset =
  operations :: "operation list"
  afterCursor :: "CursorState option"

definition newChangeset :: Changeset where
  "newChangeset = \<lparr>operations = [], afterCursor = None\<rparr>"

definition textEdit :: "BlockDataElement \<Rightarrow> string \<Rightarrow> Delta \<Rightarrow> Changeset \<Rightarrow> Changeset" where
  "textEdit node propName delta chg =
     chg\<lparr>operations := operations chg @ [TextEdit (blockId node) propName delta]\<rparr>"

definition removeNode :: "BlockDataElement \<Rightarrow> Changeset \<Rightarrow> Changeset" where
  "removeNode node chg = chg\<lparr>operations := operations chg @ [RemoveNode (blockId node)]\<rparr>"



record ChangesetApplyOptions =
  refreshCursor :: bool


fun applyOperation :: "operation \<Rightarrow> BlockDataElement list \<Rightarrow> BlockDataElement list" where
  "applyOperation (RemoveNode i) blocks = filter (\<lambda>b. blockId b \<noteq> i) blocks"
| "applyOperation (TextEdit i propName delta) blocks =
     map (\<lambda>b. if blockId b = i \<and> propName = ''textContent''
               then b\<lparr>textContent := map_option (\<lambda>m. Delta_compose m delta) (textContent b)\<rparr>
               else b) blocks"

definition clampOffset :: "BlockDataElement list \<Rightarrow> string \<Rightarrow> nat \<Rightarrow> nat" where
  "clampOffset blocks i offset =
     (case find (\<lambda>b. blockId b = i) blocks of
        Some b \<Rightarrow> (case textContent b of Some d \<Rightarrow> min offset (Delta_length d) | None \<Rightarrow> offset)
      | None \<Rightarrow> offset)"

definition clampCursor :: "BlockDataElement list \<Rightarrow> CursorState \<Rightarrow> CursorState" where
  "clampCursor blocks c =
     c\<lparr>startOffset := clampOffset blocks (startId c) (startOffset c),
       endOffset := clampOffset blocks (endId c) (endOffset c)\<rparr>"

definition Changeset_apply :: "ChangesetApplyOptions \<Rightarrow> Changeset \<Rightarrow> EditorState \<Rightarrow> EditorState" where
  "Changeset_apply options chg st =
     (let blocks = foldl (\<lambda>bs x. applyOperation x bs) (body st) (operations chg);
          cursor = (case afterCursor chg of Some c \<Rightarrow> Some c | None \<Rightarrow> cursorState st)
      in \<lparr>body = blocks,
          cursorState = (if refreshCursor options then map_option (clampCursor blocks) cursor
                         else cursor),
          version = version st + 1\<rparr>)"

section \<open>EditorController\<close>

text \<open>
  The controller of the sources (file \<^verbatim>\<open>src/unnamed/part_001\<close>). Its field
  \<^verbatim>\<open>editor\<close> is undefined until an editor is mounted; \<^verbatim>\<open>state\<close> is the editor state.
  A failed non-null assertion (\<^verbatim>\<open>!\<close>) followed by a property access throws a
  TypeError in the source and is the error value here.
\<close>

datatype error = TypeError | SyntaxError

datatype MountedEditor = MountedEditor

record EditorController =
  editor :: "MountedEditor option"
  state :: EditorState

text \<open>
  Modelled from the spec: \<^verbatim>\<open>TextBlock.Name\<close> (file textBlock, not part of the sources)
  is the registered name \<^verbatim>\<open>Text\<close> of the text block, as in the paste scenario of
  Section 8; \<^verbatim>\<open>isUpperCase\<close> (package blocky-common) tells whether a type tag starts
  with an uppercase letter, the convention of block type names in Section 3.
\<close>

definition TextBlock_Name :: string where
  "TextBlock_Name = ''Text''"

definition isUpperCase :: "string \<Rightarrow> bool" where
  "isUpperCase s =
     (case s of [] \<Rightarrow> False
      | c # _ \<Rightarrow> (65::nat) \<le> of_char c \<and> of_char c \<le> (90::nat))"

text \<open>\<^verbatim>\<open>deleteBlock(id)\<close>, lines 405--423.\<close>

definition deleteBlock :: "EditorController \<Rightarrow> string \<Rightarrow> EditorController" where
  "deleteBlock c i =
     (case editor c of
        None \<Rightarrow> c
      | Some _ \<Rightarrow>
          (case getBlockElementById (state c) i of
             None \<Rightarrow> c
           | Some blockNode \<Rightarrow>
               if \<not> isUpperCase (t blockNode) then c
               else c\<lparr>state := Changeset_apply \<lparr>refreshCursor = True\<rparr>
                                 (removeNode blockNode newChangeset) (state c)\<rparr>))"

text \<open>
  \<^verbatim>\<open>formatTextOnCursor(cursorState, attribs?)\<close>, lines 344--388. JavaScript truthiness of
  an attribute value: \<^verbatim>\<open>true\<close> and a non-empty string are truthy; \<^verbatim>\<open>false\<close>,
  \<^verbatim>\<open>null\<close>, the empty string and a missing key are not. \<open>assign\<close> is the assignment
  \<^verbatim>\<open>attribs[key] = value\<close>. The loop over \<^verbatim>\<open>states\<close> carries the object
  \<^verbatim>\<open>attribs\<close>, which it mutates, and the changeset.
\<close>

fun truthy :: "attr_value option \<Rightarrow> bool" where
  "truthy (Some (ABool b)) = b"
| "truthy (Some (AStr s)) = (s \<noteq> [])"
| "truthy (Some ANull) = False"
| "truthy None = False"

fun assign :: "string \<Rightarrow> attr_value \<Rightarrow> AttributesObject \<Rightarrow> AttributesObject" where
  "assign key v [] = [(key, v)]"
| "assign key v ((k, w) # rest) = (if k = key then (k, v) # rest else (k, w) # assign key v rest)"

definition toggleKeys :: "op \<Rightarrow> string list \<Rightarrow> AttributesObject \<Rightarrow> AttributesObject" where
  "toggleKeys x attribKeys attribs =
     foldl (\<lambda>a key. if truthy (map_of (op_attributes x) key) then assign key ANull a else a)
       attribs attribKeys"

fun formatTextLoop ::
    "EditorState \<Rightarrow> string list \<Rightarrow> CursorState list \<Rightarrow> AttributesObject option \<Rightarrow> Changeset
      \<Rightarrow> error + Changeset" where
  "formatTextLoop st attribKeys [] attribs changeset = Inr changeset"
| "formatTextLoop st attribKeys (s # states) attribs changeset =
     (case getBlockElementById st (endId s) of
        None \<Rightarrow> Inl TypeError
      | Some blockElement \<Rightarrow>
          if t blockElement \<noteq> TextBlock_Name
          then formatTextLoop st attribKeys states attribs changeset
          else
            (case textContent blockElement of
               None \<Rightarrow> Inl TypeError
             | Some currentText \<Rightarrow>
                 let prevDelta = Delta_slice (startOffset s) (Some (endOffset s)) currentText;
                     attribs' =
                       (case attribs of
                          Some a \<Rightarrow>
                            if length prevDelta = 1
                            then Some (toggleKeys (prevDelta ! 0) attribKeys a)
                            else Some a
                        | None \<Rightarrow> None)
                 in formatTextLoop st attribKeys states attribs'
                      (textEdit blockElement ''textContent''
                         (Delta_retain (endOffset s - startOffset s) attribs'
                            (Delta_retain (startOffset s) None []))
                         changeset)))"

definition formatTextChangeset ::
    "EditorState \<Rightarrow> CursorState \<Rightarrow> AttributesObject option \<Rightarrow> error + Changeset" where
  "formatTextChangeset st cursor attribs =
     formatTextLoop st (case attribs of Some a \<Rightarrow> map fst a | None \<Rightarrow> [])
       (splitCursorStateByBlocks st cursor) attribs newChangeset"

definition formatTextOnCursor ::
    "EditorController \<Rightarrow> CursorState \<Rightarrow> AttributesObject option \<Rightarrow> error + EditorController" where
  "formatTextOnCursor c cursor attribs =
     (case editor c of
        None \<Rightarrow> Inr c
      | Some _ \<Rightarrow>
          if isCollapsed cursor then Inr c
          else
            (case formatTextChangeset (state c) cursor attribs of
               Inl e \<Rightarrow> Inl e
             | Inr changeset \<Rightarrow>
                 Inr (c\<lparr>state := Changeset_apply \<lparr>refreshCursor = True\<rparr> changeset (state c)\<rparr>)))"



text \<open>
  An HTML element, as far as the paste handler reads it: its attributes.
  \<^verbatim>\<open>getAttribute\<close> gives \<^verbatim>\<open>null\<close> for a missing attribute.
\<close>

record HTMLElement =
  attributes :: "(string \<times> string) list"

definition getAttribute :: "HTMLElement \<Rightarrow> string \<Rightarrow> string option" where
  "getAttribute element qualifiedName = map_of (attributes element) qualifiedName"

text \<open>
  Modelled from the spec: the block registry (class BlockRegistry, not part of the
  sources), ``a name to definition mapping sealed after initialization'', is the list of
  the registered block definitions. A definition has a \<^verbatim>\<open>name\<close> and the optional
  members \<^verbatim>\<open>editable\<close> (``bool; default true'') and \<^verbatim>\<open>OnPaste\<close>, a handler that
  is given the pasted element and returns a block element or nothing.
\<close>

record IBlockDefinition =
  name :: string
  editable :: "bool option"
  OnPaste :: "(HTMLElement \<Rightarrow> BlockDataElement option) option"

type_synonym BlockRegistry = "IBlockDefinition list"

definition getBlockDefByName :: "BlockRegistry \<Rightarrow> string \<Rightarrow> IBlockDefinition option" where
  "getBlockDefByName registry n = find (\<lambda>d. name d = n) registry"

text \<open>
  Modelled from the spec: \<^verbatim>\<open>cloneWithId\<close> (class BlockDataElement, not part of the
  sources), ``clone it with a freshly minted id'': the clone is the element with the
  given id. A deserialized node is a BlockDataElement or a node of another class.
\<close>

datatype DataNode = BlockNode BlockDataElement | OtherNode

definition cloneWithId :: "BlockDataElement \<Rightarrow> string \<Rightarrow> BlockDataElement" where
  "cloneWithId node newId = node\<lparr>blockId := newId\<rparr>"

text \<open>
  The paste handler for block-level elements, \<^verbatim>\<open>#divHandler\<close>, lines 656--685.
  \<^verbatim>\<open>JSON.parse\<close> (which may throw), \<^verbatim>\<open>blockyNodeFromJsonNode\<close> and the
  \<^verbatim>\<open>mkBlockId\<close> of the id generator are not part of the sources and are parameters;
  the generator is a state \<open>g\<close> that \<open>mkBlockId\<close> advances. An empty string is falsy
  in both tests \<^verbatim>\<open>!dataType\<close> and \<^verbatim>\<open>jsonData\<close>.
\<close>

definition divHandler ::
    "BlockRegistry \<Rightarrow> (string \<Rightarrow> error + 'j) \<Rightarrow> ('j \<Rightarrow> error + DataNode) \<Rightarrow> ('g \<Rightarrow> string \<times> 'g)
      \<Rightarrow> HTMLElement \<Rightarrow> 'g \<Rightarrow> error + (BlockDataElement option \<times> 'g)" where
  "divHandler blockRegistry JSON_parse blockyNodeFromJsonNode mkBlockId element g =
     (case getAttribute element ''data-type'' of
        None \<Rightarrow> Inr (None, g)
      | Some dataType \<Rightarrow>
          if dataType = [] then Inr (None, g)
          else
            (case getBlockDefByName blockRegistry dataType of
               None \<Rightarrow> Inr (None, g)
             | Some blockDef \<Rightarrow>
                 (case
                    (case getAttribute element ''data-content'' of
                       None \<Rightarrow> Inr None
                     | Some jsonData \<Rightarrow>
                         if jsonData = [] then Inr None
                         else
                           (case JSON_parse jsonData of
                              Inl e \<Rightarrow> Inl e
                            | Inr data \<Rightarrow>
                                (case blockyNodeFromJsonNode data of
                                   Inl e \<Rightarrow> Inl e
                                 | Inr (BlockNode node) \<Rightarrow> Inr (Some node)
                                 | Inr OtherNode \<Rightarrow> Inr None)))
                  of
                    Inl e \<Rightarrow> Inl e
                  | Inr (Some node) \<Rightarrow>
                      (case mkBlockId g of (newId, g') \<Rightarrow> Inr (Some (cloneWithId node newId), g'))
                  | Inr None \<Rightarrow>
                      (case OnPaste blockDef of
                         Some pasteHandler \<Rightarrow> Inr (pasteHandler element, g)
                       | None \<Rightarrow> Inr (None, g)))))"

section \<open>Editor (view)\<close>

text \<open>
  Modelled from the spec: the classes that the view layer of the sources (file
  \<^verbatim>\<open>view/editor.ts\<close>) imports and that are not part of the sources: TextModel,
  BlockData, the cursor, the state (\<^verbatim>\<open>State as DocumentState\<close>) and its actions. The
  state has an id map of tree nodes whose data are blocks with the id of their block
  definition (\<^verbatim>\<open>flags\<close>) and, for text blocks, a TextModel with a text type; a cursor
  that is undefined, collapsed or open; and it applies actions. The children of the
  parent node are the list \<open>nodes\<close> in document order (field names differ from the
  source where a name is already taken in this theory: \<open>nodeId\<close> for the id of a node's
  data, \<open>docCursor\<close> for \<^verbatim>\<open>cursorState\<close>). A TextModel holds a Delta (Section 3);
  \<^verbatim>\<open>slice(offset)\<close> gives the content and attributes of its inserts from the offset on,
  \<^verbatim>\<open>insert\<close> and \<^verbatim>\<open>delete\<close> compose the delta with the edit that retains up to the
  index and then inserts or deletes. The action \<^verbatim>\<open>new-block\<close> creates the block as
  the next sibling of the node \<^verbatim>\<open>afterId\<close> (``create a new sibling block after the
  current one''), the action \<^verbatim>\<open>delete\<close> removes the node. The id of a block
  definition is its position in the registry. A new TextModel is a plain text
  (\<open>Normal\<close>) with an empty delta. The names of the text types are those the sources
  use.
\<close>

datatype TextType = Normal | Heading1 | Heading2 | Heading3 | Checkbox | Bulleted

record TextModel =
  textType :: TextType
  modelDelta :: Delta

definition newTextModel :: TextModel where
  "newTextModel = \<lparr>textType = Normal, modelDelta = []\<rparr>"

definition TextModel_length :: "TextModel \<Rightarrow> nat" where
  "TextModel_length m = Delta_length (modelDelta m)"

definition TextModel_slice :: "nat \<Rightarrow> TextModel \<Rightarrow> (string \<times> AttributesObject) list" where
  "TextModel_slice start m =
     concat (map (\<lambda>x. case x of Insert s a \<Rightarrow> [(s, a)] | _ \<Rightarrow> [])
               (Delta_slice start None (modelDelta m)))"

definition TextModel_insert :: "nat \<Rightarrow> string \<Rightarrow> AttributesObject \<Rightarrow> TextModel \<Rightarrow> TextModel" where
  "TextModel_insert index content attrs m =
     m\<lparr>modelDelta := Delta_compose (modelDelta m)
                   (Delta_insert content (Some attrs) (Delta_retain index None []))\<rparr>"

definition TextModel_delete :: "nat \<Rightarrow> nat \<Rightarrow> TextModel \<Rightarrow> TextModel" where
  "TextModel_delete index len m =
     m\<lparr>modelDelta := Delta_compose (modelDelta m) (Delta_delete len (Delta_retain index None []))\<rparr>"

record BlockData =
  nodeId :: string
  flags :: nat
  data :: "TextModel option"

datatype DocCursor =
    CollapsedCursor string nat
  | OpenCursor string nat string nat

record DocumentState =
  parentId :: string
  nodes :: "BlockData list"
  docCursor :: "DocCursor option"

definition idMap_get :: "DocumentState \<Rightarrow> string \<Rightarrow> BlockData option" where
  "idMap_get st i = find (\<lambda>n. nodeId n = i) (nodes st)"

definition prev :: "DocumentState \<Rightarrow> BlockData \<Rightarrow> BlockData option" where
  "prev st node =
     (case takeWhile (\<lambda>n. nodeId n \<noteq> nodeId node) (nodes st) of
        [] \<Rightarrow> None
      | ns \<Rightarrow> Some (last ns))"

definition getBlockDefById :: "BlockRegistry \<Rightarrow> nat \<Rightarrow> IBlockDefinition option" where
  "getBlockDefById registry i = (if i < length registry then Some (registry ! i) else None)"

definition getBlockIdByName :: "BlockRegistry \<Rightarrow> string \<Rightarrow> nat" where
  "getBlockIdByName registry n = length (takeWhile (\<lambda>d. name d \<noteq> n) registry)"

datatype Action =
    NewBlock string string string string "TextModel option"
  | DeleteAction string

fun insertAfter :: "string \<Rightarrow> BlockData \<Rightarrow> BlockData list \<Rightarrow> BlockData list" where
  "insertAfter afterId new [] = []"
| "insertAfter afterId new (n # ns) =
     (if nodeId n = afterId then n # new # ns else n # insertAfter afterId new ns)"

fun applyAction :: "BlockRegistry \<Rightarrow> Action \<Rightarrow> BlockData list \<Rightarrow> BlockData list" where
  "applyAction registry (NewBlock blockName targetId newId afterId d) ns =
     insertAfter afterId
       \<lparr>nodeId = newId, flags = getBlockIdByName registry blockName, data = d\<rparr> ns"
| "applyAction registry (DeleteAction targetId) ns = filter (\<lambda>n. nodeId n \<noteq> targetId) ns"

definition State_applyActions :: "BlockRegistry \<Rightarrow> Action list \<Rightarrow> DocumentState \<Rightarrow> DocumentState" where
  "State_applyActions registry actions st =
     st\<lparr>nodes := foldl (\<lambda>ns a. applyAction registry a ns) (nodes st) actions\<rparr>"

text \<open>
  The editor: the composition flag, the state, the block registry and the id generator.
  \<^verbatim>\<open>preservedTextType\<close> is the set of line 104. \<^verbatim>\<open>TextBlockName\<close> is the block name
  that line 859 compares with.
\<close>

record 'g Editor =
  composing :: bool
  docState :: DocumentState
  registry :: BlockRegistry
  idGenerator :: 'g

definition preservedTextType :: "TextType set" where
  "preservedTextType = {Bulleted}"

definition TextBlockName :: string where
  "TextBlockName = ''text''"

text \<open>
  \<^verbatim>\<open>selectionChanged\<close>, lines 263--316, reads the selection of the browser window and
  stores the cursor it maps to. The selection is a parameter: \<open>None\<close> when the window has
  no selection range (the state is left alone), \<open>Some c\<close> when the range maps to the
  cursor \<open>c\<close> (undefined when no block is found).
\<close>

definition selectionChanged :: "DocCursor option option \<Rightarrow> 'g Editor \<Rightarrow> 'g Editor" where
  "selectionChanged selection ed =
     (case selection of
        None \<Rightarrow> ed
      | Some c \<Rightarrow> ed\<lparr>docState := (docState ed)\<lparr>docCursor := c\<rparr>\<rparr>)"

text \<open>
  \<^verbatim>\<open>applyActions(actions)\<close>, lines 418--444, with no plugin hooked in before the
  application: the state applies the actions, the editor renders, and the callback of
  \<^verbatim>\<open>render\<close> runs \<^verbatim>\<open>selectionChanged\<close>.
\<close>

definition applyActions :: "DocCursor option option \<Rightarrow> Action list \<Rightarrow> 'g Editor \<Rightarrow> 'g Editor" where
  "applyActions selection actions ed =
     (if actions = [] then ed
      else selectionChanged selection
             (ed\<lparr>docState := State_applyActions (registry ed) actions (docState ed)\<rparr>))"

text \<open>
  \<^verbatim>\<open>commitNewLine\<close>, lines 536--593. The loop over the slices fills the new TextModel
  and advances \<^verbatim>\<open>ptr\<close>; the TextModel of the node is then cut in place; the action is
  applied and the callback of \<^verbatim>\<open>render\<close> sets the cursor.
\<close>

definition fillSlices :: "(string \<times> AttributesObject) list \<Rightarrow> TextModel \<Rightarrow> TextModel" where
  "fillSlices slices m =
     fst (foldl (\<lambda>(m', ptr) (content, attrs).
                   (TextModel_insert ptr content attrs m', ptr + length content))
            (m, 0) slices)"

definition setNodeData :: "string \<Rightarrow> TextModel \<Rightarrow> DocumentState \<Rightarrow> DocumentState" where
  "setNodeData i m st =
     st\<lparr>nodes := map (\<lambda>n. if nodeId n = i then n\<lparr>data := Some m\<rparr> else n) (nodes st)\<rparr>"

definition commitNewLine ::
    "('g \<Rightarrow> string \<times> 'g) \<Rightarrow> DocCursor option option \<Rightarrow> 'g Editor \<Rightarrow> 'g Editor" where
  "commitNewLine mkBlockId selection ed =
     (case docCursor (docState ed) of
        None \<Rightarrow> ed
      | Some (OpenCursor a b c d) \<Rightarrow> ed
      | Some (CollapsedCursor targetId cursorOffset) \<Rightarrow>
          (case idMap_get (docState ed) targetId of
             None \<Rightarrow> ed
           | Some node \<Rightarrow>
               (case data node of
                  None \<Rightarrow> ed
                | Some textModel \<Rightarrow>
                    let slices = TextModel_slice cursorOffset textModel;
                        new = fillSlices slices
                                (if textType textModel \<in> preservedTextType
                                 then newTextModel\<lparr>textType := textType textModel\<rparr>
                                 else newTextModel);
                        textModel' = TextModel_delete cursorOffset
                                       (TextModel_length textModel - cursorOffset) textModel;
                        (newId, g') = mkBlockId (idGenerator ed);
                        actions = [NewBlock TextBlockName (parentId (docState ed)) newId
                                     (nodeId node) (Some new)];
                        ed1 = ed\<lparr>docState := setNodeData (nodeId node) textModel' (docState ed),
                                 idGenerator := g'\<rparr>;
                        ed2 = applyActions selection actions ed1
                    in ed2\<lparr>docState := (docState ed2)\<lparr>docCursor := Some (CollapsedCursor newId 0)\<rparr>\<rparr>)))"

text \<open>
  \<^verbatim>\<open>focusEndOfNode\<close> and \<^verbatim>\<open>deleteBlockOnFocusedCursor\<close>, lines 612--676.
  \<^verbatim>\<open>isBlockId\<close> of the id generator is a parameter. The result of
  \<open>deleteBlockOnFocusedCursor\<close> is the returned boolean and the editor afterwards.
\<close>

definition focusEndOfNode :: "BlockData \<Rightarrow> 'g Editor \<Rightarrow> 'g Editor" where
  "focusEndOfNode treeNode ed =
     (case data treeNode of
        Some m \<Rightarrow>
          ed\<lparr>docState := (docState ed)
               \<lparr>docCursor := Some (CollapsedCursor (nodeId treeNode) (TextModel_length m))\<rparr>\<rparr>
      | None \<Rightarrow>
          ed\<lparr>docState := (docState ed)\<lparr>docCursor := Some (CollapsedCursor (nodeId treeNode) 0)\<rparr>\<rparr>)"

definition deleteBlockOnFocusedCursor ::
    "(string \<Rightarrow> bool) \<Rightarrow> DocCursor option option \<Rightarrow> 'g Editor \<Rightarrow> error + (bool \<times> 'g Editor)" where
  "deleteBlockOnFocusedCursor isBlockId selection ed =
     (case docCursor (docState ed) of
        None \<Rightarrow> Inr (False, ed)
      | Some (OpenCursor a b c d) \<Rightarrow> Inr (False, ed)
      | Some (CollapsedCursor targetId offset) \<Rightarrow>
          if \<not> isBlockId targetId then Inr (False, ed)
          else
            (case idMap_get (docState ed) targetId of
               None \<Rightarrow> Inr (False, ed)
             | Some node \<Rightarrow>
                 let prevNode = prev (docState ed) node
                 in (case getBlockDefById (registry ed) (flags node) of
                       None \<Rightarrow> Inl TypeError
                     | Some blockDef \<Rightarrow>
                         if editable blockDef \<noteq> Some False then Inr (False, ed)
                         else
                           let ed1 = applyActions selection [DeleteAction targetId] ed
                           in (case prevNode of
                                 Some p \<Rightarrow>
                                   Inr (True,
                                        focusEndOfNode p
                                          (ed1\<lparr>docState := (docState ed1)
                                                \<lparr>docCursor := Some (CollapsedCursor (nodeId p) 0)\<rparr>\<rparr>))
                               | None \<Rightarrow>
                                   Inr (True,
                                        ed1\<lparr>docState := (docState ed1)\<lparr>docCursor := None\<rparr>\<rparr>)))))"

text \<open>
  A keyboard event, as far as the key handlers read and write it: the key, and the flag
  \<^verbatim>\<open>defaultPrevented\<close> that \<^verbatim>\<open>preventDefault\<close> sets.
\<close>

record KeyboardEvent =
  key :: string
  defaultPrevented :: bool

definition preventDefault :: "KeyboardEvent \<Rightarrow> KeyboardEvent" where
  "preventDefault e = e\<lparr>defaultPrevented := True\<rparr>"

text \<open>
  \<^verbatim>\<open>handleKeyTab\<close>, lines 532--534, \<^verbatim>\<open>handleDelete\<close> and
  \<^verbatim>\<open>handleBackspace\<close>, lines 600--610. The result is the event and the editor
  afterwards.
\<close>

definition handleKeyTab :: "KeyboardEvent \<Rightarrow> KeyboardEvent" where
  "handleKeyTab e = preventDefault e"

definition handleDelete ::
    "(string \<Rightarrow> bool) \<Rightarrow> DocCursor option option \<Rightarrow> KeyboardEvent \<Rightarrow> 'g Editor
      \<Rightarrow> error + (KeyboardEvent \<times> 'g Editor)" where
  "handleDelete isBlockId selection e ed =
     (case deleteBlockOnFocusedCursor isBlockId selection ed of
        Inl x \<Rightarrow> Inl x
      | Inr (deleted, ed') \<Rightarrow> Inr (if deleted then preventDefault e else e, ed'))"

definition handleBackspace ::
    "(string \<Rightarrow> bool) \<Rightarrow> DocCursor option option \<Rightarrow> KeyboardEvent \<Rightarrow> 'g Editor
      \<Rightarrow> error + (KeyboardEvent \<times> 'g Editor)" where
  "handleBackspace isBlockId selection e ed =
     (case deleteBlockOnFocusedCursor isBlockId selection ed of
        Inl x \<Rightarrow> Inl x
      | Inr (deleted, ed') \<Rightarrow> Inr (if deleted then preventDefault e else e, ed'))"

text \<open>
  \<^verbatim>\<open>handleKeyDown\<close>, lines 501--530, with the set \<^verbatim>\<open>arrowKeys\<close> of line 35. The
  handler first emits the event on the slot \<^verbatim>\<open>keyDown\<close>. The listeners of the slot
  are not part of the sources and are the parameter \<open>keyDown_emit\<close>: given the event
  and the editor, they leave an event, whose default action they may have prevented, and
  an editor. The result is the event and the editor afterwards.
\<close>

definition arrowKeys :: "string set" where
  "arrowKeys = {''ArrowUp'', ''ArrowDown'', ''ArrowLeft'', ''ArrowRight''}"

definition handleKeyDown ::
    "(KeyboardEvent \<Rightarrow> 'g Editor \<Rightarrow> KeyboardEvent \<times> 'g Editor) \<Rightarrow> (string \<Rightarrow> bool)
      \<Rightarrow> ('g \<Rightarrow> string \<times> 'g) \<Rightarrow> DocCursor option option \<Rightarrow> KeyboardEvent \<Rightarrow> 'g Editor
      \<Rightarrow> error + (KeyboardEvent \<times> 'g Editor)" where
  "handleKeyDown keyDown_emit isBlockId mkBlockId selection e0 ed0 =
     (case keyDown_emit e0 ed0 of
        (e, ed) \<Rightarrow>
          if defaultPrevented e then Inr (e, ed)
          else if key e = ''Tab'' then Inr (handleKeyTab e, ed)
          else if key e \<in> arrowKeys then Inr (e, ed)
          else if composing ed then Inr (e, ed)
          else if key e = ''Enter'' then
            (if \<not> defaultPrevented e
             then Inr (preventDefault e, commitNewLine mkBlockId selection ed)
             else Inr (e, ed))
          else if key e = ''Backspace'' then handleBackspace isBlockId selection e ed
          else if key e = ''Delete'' then handleDelete isBlockId selection e ed
          else Inr (e, ed))"









text \<open>
  The listeners that \<^verbatim>\<open>render\<close> binds, lines 189--196, and the composition handlers,
  lines 492--499. \<^verbatim>\<open>handleContentChanged\<close> compares the DOM with the model and applies
  the difference; the DOM is outside the model, so the content diff is a parameter, a
  function on the editor.
\<close>

datatype DomEvent = InputEvent | CompositionStart | CompositionEnd

definition handleCompositionStart :: "'g Editor \<Rightarrow> 'g Editor" where
  "handleCompositionStart ed = ed\<lparr>composing := True\<rparr>"

definition handleCompositionEnd :: "('g Editor \<Rightarrow> 'g Editor) \<Rightarrow> 'g Editor \<Rightarrow> 'g Editor" where
  "handleCompositionEnd handleContentChanged ed = handleContentChanged (ed\<lparr>composing := False\<rparr>)"

definition onInput :: "('g Editor \<Rightarrow> 'g Editor) \<Rightarrow> 'g Editor \<Rightarrow> 'g Editor" where
  "onInput handleContentChanged ed = (if composing ed then ed else handleContentChanged ed)"

fun dispatch :: "('g Editor \<Rightarrow> 'g Editor) \<Rightarrow> 'g Editor \<Rightarrow> DomEvent \<Rightarrow> 'g Editor" where
  "dispatch handleContentChanged ed InputEvent = onInput handleContentChanged ed"
| "dispatch handleContentChanged ed CompositionStart = handleCompositionStart ed"
| "dispatch handleContentChanged ed CompositionEnd = handleCompositionEnd handleContentChanged ed"

definition dispatchAll :: "('g Editor \<Rightarrow> 'g Editor) \<Rightarrow> DomEvent list \<Rightarrow> 'g Editor \<Rightarrow> 'g Editor" where
  "dispatchAll handleContentChanged events ed = foldl (dispatch handleContentChanged) ed events"

text \<open>
  The characters, with their attribute maps, of a list of slices of a TextModel; used to
  state and prove the properties of \<open>commitNewLine\<close>.
\<close>

definition slice_chars :: "(string \<times> AttributesObject) list \<Rightarrow> (char \<times> attr_map) list" where
  "slice_chars slices = concat (map (\<lambda>(s, a). map (\<lambda>c. (c, map_of a)) s) slices)"

text \<open>
  For the concrete scenarios: an id generator whose block ids carry the prefix
  \<^verbatim>\<open>blk-\<close> (``block ids prefixed so isBlockId is a syntactic test'') and are numbered
  by a counter written in unary.
\<close>

definition sampleIsBlockId :: "string \<Rightarrow> bool" where
  "sampleIsBlockId i = (take 4 i = ''blk-'')"

definition sampleMkBlockId :: "nat \<Rightarrow> string \<times> nat" where
  "sampleMkBlockId g = (''blk-new'' @ replicate g (CHR ''I''), Suc g)"

text \<open>
  For the concrete scenarios of the key handler: a slot \<^verbatim>\<open>keyDown\<close> without
  listeners, and one with a listener that prevents the default action of the key.
\<close>

definition noKeyDownListener :: "KeyboardEvent \<Rightarrow> nat Editor \<Rightarrow> KeyboardEvent \<times> nat Editor" where
  "noKeyDownListener e ed = (e, ed)"

definition preventingKeyDownListener ::
    "KeyboardEvent \<Rightarrow> nat Editor \<Rightarrow> KeyboardEvent \<times> nat Editor" where
  "preventingKeyDownListener e ed = (preventDefault e, ed)"

text \<open>
  For the concrete scenarios of the paste handlers: a content format that stores nothing
  but the id of a text block \<open>hi\<close>, with the parser that refuses the empty text and
  the deserializer that reads the id; a span registry with one style; block
  definitions without a paste handler of the view.
\<close>

definition sampleJSONparse :: "string \<Rightarrow> error + string" where
  "sampleJSONparse s = (if s = [] then Inl SyntaxError else Inr s)"

definition sampleNodeFromJson :: "string \<Rightarrow> error + DataNode" where
  "sampleNodeFromJson js =
     Inr (BlockNode \<lparr>t = ''Text'', blockId = js, textContent = Some [Insert ''hi'' []]\<rparr>)"



section \<open>Properties of NodeLocation\<close>

lemma prefix_loop_iff:
  "n \<le> length xs \<Longrightarrow> n \<le> length ys \<Longrightarrow>
   list_ex (\<lambda>i. xs ! i \<noteq> ys ! i) [0..<n] \<longleftrightarrow> take n xs \<noteq> take n ys"
  by (auto simp: list_ex_iff list_eq_iff_nth_eq)

lemma equals_iff: "equals h a b \<longleftrightarrow> a = b"
proof (cases "length (path a) = length (path b)")
  case False
  then show ?thesis by (auto simp: equals_def loc_length_def)
next
  case True
  have "list_ex (\<lambda>i. path a ! i \<noteq> path b ! i) [0..<length (path a)] \<longleftrightarrow> path a \<noteq> path b"
    using True prefix_loop_iff [of "length (path a)" "path a" "path b"] by simp
  then show ?thesis
    using True by (auto simp: equals_def loc_length_def hashCode_def NodeLocation.expand)
qed



lemma transform_short: "length (path loc) < length (path b) \<or> path b = [] \<Longrightarrow> transform b loc delta = loc"
  by (auto simp: transform_def loc_length_def)

lemma transform_Suc:
  assumes b: "length (path b) = Suc d" and l: "Suc d \<le> length (path loc)"
  shows "transform b loc delta =
     (if take d (path b) = take d (path loc)
      then (case (path b ! d, path loc ! d) of
             (Num x, Num y) \<Rightarrow> if x \<le> y then NodeLocation ((path loc)[d := Num (y + delta)]) else loc
           | _ \<Rightarrow> loc)
      else loc)"
proof -
  have loop: "list_ex (\<lambda>i. path b ! i \<noteq> path loc ! i) [0..<d] \<longleftrightarrow> take d (path b) \<noteq> take d (path loc)"
    using b l prefix_loop_iff [of d "path b" "path loc"] by simp
  have upd: "take d (path b) @ [c] @ drop (Suc d) (path loc) = (path loc)[d := c]"
    if "take d (path b) = take d (path loc)" for c
    using l that by (simp add: upd_conv_take_nth_drop)
  have same: "NodeLocation ((path loc)[d := path loc ! d]) = loc"
    by (cases loc) simp
  have ne: "path loc \<noteq> []" using l by auto
  have unf: "transform b loc delta =
      (if list_ex (\<lambda>i. path b ! i \<noteq> path loc ! i) [0..<d] then loc
       else (case (path b ! d, path loc ! d) of
              (Num bl, Num off) \<Rightarrow>
                (if bl \<le> off then NodeLocation (take d (path b) @ [Num (off + delta)] @ drop (Suc d) (path loc))
                 else NodeLocation (take d (path b) @ [Num off] @ drop (Suc d) (path loc)))
            | _ \<Rightarrow> loc))"
    using l ne by (simp add: transform_def loc_length_def Let_def b)
  show ?thesis
  proof (cases "take d (path b) = take d (path loc)")
    case False
    then show ?thesis using loop unf by simp
  next
    case eq: True
    show ?thesis
    proof (cases "path b ! d")
      case (Str s)
      then show ?thesis using loop eq unf by simp
    next
      case bl: (Num x)
      show ?thesis
      proof (cases "path loc ! d")
        case (Str s)
        then show ?thesis using loop eq bl unf by simp
      next
        case (Num y)
        then show ?thesis using loop eq bl upd [OF eq] same unf by simp
      qed
    qed
  qed
qed

lemma transform_roundtrip: "transform b (transform b loc 1) (- 1) = loc"
proof (cases "length (path loc) < length (path b) \<or> path b = []")
  case True
  then show ?thesis by (simp add: transform_short)
next
  case False
  then obtain d where b: "length (path b) = Suc d"
    by (cases "path b") auto
  with False have l: "Suc d \<le> length (path loc)" by simp
  note t = transform_Suc [OF b]
  show ?thesis
  proof (cases "take d (path b) = take d (path loc) \<and> (\<exists>x y. path b ! d = Num x \<and> path loc ! d = Num y \<and> x \<le> y)")
    case False
    then have "transform b loc delta = loc" for delta
      using t [OF l, of delta] by (auto split: component.splits)
    then show ?thesis by simp
  next
    case True
    then obtain x y where eq: "take d (path b) = take d (path loc)"
      and xy: "path b ! d = Num x" "path loc ! d = Num y" "x \<le> y" by blast
    let ?l1 = "NodeLocation ((path loc)[d := Num (y + 1)])"
    have 1: "transform b loc 1 = ?l1" using t [OF l, of 1] eq xy by simp
    have l1: "Suc d \<le> length (path ?l1)" using l by simp
    have "transform b ?l1 (- 1) = NodeLocation ((path loc)[d := Num y])"
      using t [OF l1, of "- 1"] eq xy l by simp
    also have "\<dots> = loc" using xy(2) l by (cases loc) (simp add: list_update_same_conv)
    finally show ?thesis using 1 by simp
  qed
qed


text \<open>
  Claim C5. \<open>transform b loc delta\<close> is \<open>loc\<close> with its index at depth
  \<open>length b - 1\<close> shifted by \<open>delta\<close> when \<open>b\<close> is not empty, \<open>loc\<close> is at least as
  long as \<open>b\<close>, both agree on all components before that depth, the last component of
  \<open>b\<close> and the component of \<open>loc\<close> at that depth are numbers, and the former is at most
  the latter. In every other case (an empty \<open>b\<close> or \<open>loc\<close>, \<open>loc\<close> shorter than \<open>b\<close>, a
  prefix mismatch, a string at the deciding position, or a larger last index of \<open>b\<close>)
  the location comes back unchanged.
\<close>

theorem transform_shift_cases:
  "transform b loc delta =
     (if path b \<noteq> [] \<and> length (path b) \<le> length (path loc) \<and>
         take (length (path b) - 1) (path b) = take (length (path b) - 1) (path loc) \<and>
         (\<exists>x y. last (path b) = Num x \<and> path loc ! (length (path b) - 1) = Num y \<and> x \<le> y)
      then shiftAt (length (path b) - 1) delta loc
      else loc)"
proof (cases "length (path loc) < length (path b) \<or> path b = []")
  case True
  then show ?thesis by (auto simp: transform_short)
next
  case False
  then obtain d where b: "length (path b) = Suc d"
    by (cases "path b") auto
  with False have l: "Suc d \<le> length (path loc)" by simp
  have last: "last (path b) = path b ! d"
    using b False by (simp add: last_conv_nth)
  show ?thesis
    using False l transform_Suc [OF b l, of delta]
    by (auto simp: b last shiftAt_def split: component.splits)
qed

theorem transform_shift_cases_witness:
  "transform (NodeLocation [Num 0, Num 1]) (NodeLocation [Num 0, Num 3, Str ''textContent'']) 1
     = NodeLocation [Num 0, Num 4, Str ''textContent''] \<and>
   transform (NodeLocation [Num 0, Num 5]) (NodeLocation [Num 0, Num 3, Str ''textContent'']) 1
     = NodeLocation [Num 0, Num 3, Str ''textContent''] \<and>
   transform (NodeLocation [Num 0, Str ''a'']) (NodeLocation [Num 0, Num 3]) 1
     = NodeLocation [Num 0, Num 3] \<and>
   transform (NodeLocation [Num 1, Num 1]) (NodeLocation [Num 0, Num 3]) 1
     = NodeLocation [Num 0, Num 3]"
  using transform_shift_cases [of "NodeLocation [Num 0, Num 1]" "NodeLocation [Num 0, Num 3, Str ''textContent'']" 1]
    transform_shift_cases [of "NodeLocation [Num 0, Num 5]" "NodeLocation [Num 0, Num 3, Str ''textContent'']" 1]
    transform_shift_cases [of "NodeLocation [Num 0, Str ''a'']" "NodeLocation [Num 0, Num 3]" 1]
    transform_shift_cases [of "NodeLocation [Num 1, Num 1]" "NodeLocation [Num 0, Num 3]" 1]
  by (simp add: shiftAt_def)

text \<open>
  Claim C6. For every base \<open>b\<close> and every location \<open>loc\<close> that \<open>equals\<close> tells apart
  from \<open>b\<close>, shifting by \<open>+1\<close> and then by \<open>-1\<close> against \<open>b\<close> gives \<open>loc\<close> back.
  (The helper \<open>transform_roundtrip\<close> shows that the same holds for \<open>loc = b\<close> too.)
\<close>

theorem transform_plus_minus_identity:
  "\<not> equals hashIntArrays loc b \<Longrightarrow> transform b (transform b loc 1) (- 1) = loc"
  by (rule transform_roundtrip)

theorem transform_plus_minus_identity_witness:
  "\<not> equals (\<lambda>xs. sum_list xs) (NodeLocation [Num 0, Num 3]) (NodeLocation [Num 0, Num 1]) \<and>
   transform (NodeLocation [Num 0, Num 1]) (NodeLocation [Num 0, Num 3]) 1 = NodeLocation [Num 0, Num 4] \<and>
   transform (NodeLocation [Num 0, Num 1])
     (transform (NodeLocation [Num 0, Num 1]) (NodeLocation [Num 0, Num 3]) 1) (- 1)
     = NodeLocation [Num 0, Num 3]"
proof -
  have ne: "\<not> equals (\<lambda>xs. sum_list xs) (NodeLocation [Num 0, Num 3]) (NodeLocation [Num 0, Num 1])"
    by (simp add: equals_def loc_length_def hashCode_def)
  have sh: "transform (NodeLocation [Num 0, Num 1]) (NodeLocation [Num 0, Num 3]) 1 = NodeLocation [Num 0, Num 4]"
    by (simp add: transform_def loc_length_def)
  show ?thesis
    using ne sh transform_plus_minus_identity [OF ne] by simp
qed

section \<open>Properties of the controller: deleteBlock and the paste handler\<close>

lemma find_blockId: "find (\<lambda>b. blockId b = i) bs = Some b \<Longrightarrow> blockId b = i"
  by (induction bs) (auto split: if_splits)

lemma find_None_filter: "find (\<lambda>b. blockId b = i) (filter (\<lambda>b. blockId b \<noteq> i) bs) = None"
  by (induction bs) auto

lemma body_Changeset_apply:
  "body (Changeset_apply options chg st) = foldl (\<lambda>bs x. applyOperation x bs) (body st) (operations chg)"
  by (simp add: Changeset_apply_def Let_def)

lemma version_Changeset_apply: "version (Changeset_apply options chg st) = version st + 1"
  by (simp add: Changeset_apply_def Let_def)

lemma cursorState_Changeset_apply:
  "cursorState (Changeset_apply options chg st) =
     (let cursor = (case afterCursor chg of Some c \<Rightarrow> Some c | None \<Rightarrow> cursorState st)
      in if refreshCursor options
         then map_option (clampCursor (body (Changeset_apply options chg st))) cursor
         else cursor)"
  by (simp add: Changeset_apply_def Let_def)

lemma deleteBlock_applied:
  assumes e: "editor c = Some e" and b: "getBlockElementById (state c) i = Some b"
    and u: "isUpperCase (t b)"
  shows "deleteBlock c i =
            c\<lparr>state := Changeset_apply \<lparr>refreshCursor = True\<rparr>
                         \<lparr>operations = [RemoveNode i], afterCursor = None\<rparr> (state c)\<rparr>"
proof -
  have bi: "blockId b = i"
    using b find_blockId [of i "body (state c)" b] by (simp add: getBlockElementById_def)
  have "removeNode b newChangeset = \<lparr>operations = [RemoveNode i], afterCursor = None\<rparr>"
    by (simp add: removeNode_def newChangeset_def bi)
  then show ?thesis
    by (simp add: deleteBlock_def e b u)
qed

lemma deleteBlock_skipped:
  assumes "\<not> (editor c \<noteq> None \<and> (\<exists>b. getBlockElementById (state c) i = Some b \<and> isUpperCase (t b)))"
  shows "deleteBlock c i = c"
proof (cases "editor c")
  case None
  then show ?thesis by (simp add: deleteBlock_def)
next
  case (Some e)
  show ?thesis
  proof (cases "getBlockElementById (state c) i")
    case None
    then show ?thesis by (simp add: deleteBlock_def Some)
  next
    case b: (Some b)
    with assms Some have "\<not> isUpperCase (t b)" by simp
    then show ?thesis by (simp add: deleteBlock_def Some b)
  qed
qed

text \<open>
  Claim C10. \<open>deleteBlock c i\<close> applies the changeset that removes the block \<open>i\<close> (with
  \<^verbatim>\<open>refreshCursor\<close>) when an editor is mounted, \<open>i\<close> maps to a block element of the
  state and the type tag of that element starts with an uppercase letter; the block is
  then gone from the index and the version is one higher. In every other case (no editor,
  unknown id, or a tag that does not start with an uppercase letter) the controller is
  returned as it was: the body, the block index, the cursor and the version are unchanged.
\<close>

theorem deleteBlock_applies_only_when_allowed:
  "(editor c \<noteq> None \<and> (\<exists>b. getBlockElementById (state c) i = Some b \<and> isUpperCase (t b))
      \<longrightarrow> deleteBlock c i =
            c\<lparr>state := Changeset_apply \<lparr>refreshCursor = True\<rparr>
                         \<lparr>operations = [RemoveNode i], afterCursor = None\<rparr> (state c)\<rparr>
          \<and> getBlockElementById (state (deleteBlock c i)) i = None
          \<and> version (state (deleteBlock c i)) = version (state c) + 1)
   \<and> (\<not> (editor c \<noteq> None \<and> (\<exists>b. getBlockElementById (state c) i = Some b \<and> isUpperCase (t b)))
      \<longrightarrow> deleteBlock c i = c
          \<and> body (state (deleteBlock c i)) = body (state c)
          \<and> (\<forall>j. getBlockElementById (state (deleteBlock c i)) j = getBlockElementById (state c) j)
          \<and> cursorState (state (deleteBlock c i)) = cursorState (state c)
          \<and> version (state (deleteBlock c i)) = version (state c))"
proof (intro conjI impI)
  assume a: "editor c \<noteq> None \<and> (\<exists>b. getBlockElementById (state c) i = Some b \<and> isUpperCase (t b))"
  then obtain b e where b: "getBlockElementById (state c) i = Some b" "isUpperCase (t b)"
    and e: "editor c = Some e" by auto
  show eq: "deleteBlock c i =
            c\<lparr>state := Changeset_apply \<lparr>refreshCursor = True\<rparr>
                         \<lparr>operations = [RemoveNode i], afterCursor = None\<rparr> (state c)\<rparr>"
    by (rule deleteBlock_applied [OF e b])
  show "getBlockElementById (state (deleteBlock c i)) i = None"
    unfolding eq by (simp add: getBlockElementById_def body_Changeset_apply find_None_filter)
  show "version (state (deleteBlock c i)) = version (state c) + 1"
    unfolding eq by (simp add: version_Changeset_apply)
next
  assume n: "\<not> (editor c \<noteq> None \<and> (\<exists>b. getBlockElementById (state c) i = Some b \<and> isUpperCase (t b)))"
  show eq: "deleteBlock c i = c"
    by (rule deleteBlock_skipped [OF n])
  show "body (state (deleteBlock c i)) = body (state c)"
    "\<forall>j. getBlockElementById (state (deleteBlock c i)) j = getBlockElementById (state c) j"
    "cursorState (state (deleteBlock c i)) = cursorState (state c)"
    "version (state (deleteBlock c i)) = version (state c)"
    unfolding eq by simp_all
qed

theorem deleteBlock_applies_only_when_allowed_witness:
  "deleteBlock \<lparr>editor = Some MountedEditor,
       state = \<lparr>body = [\<lparr>t = ''Text'', blockId = ''b1'', textContent = Some [Insert ''foo'' []]\<rparr>,
                        \<lparr>t = ''Image'', blockId = ''b2'', textContent = None\<rparr>],
                cursorState = None, version = 0\<rparr>\<rparr> ''b2''
     = \<lparr>editor = Some MountedEditor,
       state = \<lparr>body = [\<lparr>t = ''Text'', blockId = ''b1'', textContent = Some [Insert ''foo'' []]\<rparr>],
                cursorState = None, version = 1\<rparr>\<rparr>
   \<and> deleteBlock \<lparr>editor = None,
       state = \<lparr>body = [\<lparr>t = ''Text'', blockId = ''b1'', textContent = Some [Insert ''foo'' []]\<rparr>],
                cursorState = None, version = 0\<rparr>\<rparr> ''b1''
     = \<lparr>editor = None,
       state = \<lparr>body = [\<lparr>t = ''Text'', blockId = ''b1'', textContent = Some [Insert ''foo'' []]\<rparr>],
                cursorState = None, version = 0\<rparr>\<rparr>
   \<and> deleteBlock \<lparr>editor = Some MountedEditor,
       state = \<lparr>body = [\<lparr>t = ''body'', blockId = ''b1'', textContent = None\<rparr>],
                cursorState = None, version = 0\<rparr>\<rparr> ''b1''
     = \<lparr>editor = Some MountedEditor,
       state = \<lparr>body = [\<lparr>t = ''body'', blockId = ''b1'', textContent = None\<rparr>],
                cursorState = None, version = 0\<rparr>\<rparr>"
  using deleteBlock_applies_only_when_allowed [of "\<lparr>editor = Some MountedEditor,
       state = \<lparr>body = [\<lparr>t = ''Text'', blockId = ''b1'', textContent = Some [Insert ''foo'' []]\<rparr>,
                        \<lparr>t = ''Image'', blockId = ''b2'', textContent = None\<rparr>],
                cursorState = None, version = 0\<rparr>\<rparr>" "''b2''"]
    deleteBlock_applies_only_when_allowed [of "\<lparr>editor = None,
       state = \<lparr>body = [\<lparr>t = ''Text'', blockId = ''b1'', textContent = Some [Insert ''foo'' []]\<rparr>],
                cursorState = None, version = 0\<rparr>\<rparr>" "''b1''"]
    deleteBlock_applies_only_when_allowed [of "\<lparr>editor = Some MountedEditor,
       state = \<lparr>body = [\<lparr>t = ''body'', blockId = ''b1'', textContent = None\<rparr>],
                cursorState = None, version = 0\<rparr>\<rparr>" "''b1''"]
  by (simp add: getBlockElementById_def isUpperCase_def Changeset_apply_def Let_def)






text \<open>
  Claim C7, amended. For a pasted element whose \<^verbatim>\<open>data-type\<close> attribute names a
  registered block (block names are not empty) and whose \<^verbatim>\<open>data-content\<close> attribute is
  a JSON text that deserializes to a BlockDataElement, the paste handler returns that
  element cloned with the id that the id generator mints at this call, and the generator
  has advanced: the type tag and the text are those of the deserialized element, the id
  is the minted one, whatever id is stored in \<^verbatim>\<open>data-content\<close>.
\<close>

theorem divHandler_clones_with_minted_id:
  assumes "getAttribute element ''data-type'' = Some dataType" and "dataType \<noteq> []"
    and "getBlockDefByName blockRegistry dataType = Some blockDef"
    and "getAttribute element ''data-content'' = Some jsonData" and "jsonData \<noteq> []"
    and "JSON_parse jsonData = Inr js"
    and "blockyNodeFromJsonNode js = Inr (BlockNode node)"
    and "mkBlockId g = (newId, g')"
  shows "divHandler blockRegistry JSON_parse blockyNodeFromJsonNode mkBlockId element g
           = Inr (Some (cloneWithId node newId), g')
         \<and> blockId (cloneWithId node newId) = newId
         \<and> t (cloneWithId node newId) = t node
         \<and> textContent (cloneWithId node newId) = textContent node"
  using assms by (simp add: divHandler_def cloneWithId_def)

theorem divHandler_clones_with_minted_id_witness:
  "divHandler [\<lparr>name = ''Text'', editable = None, OnPaste = None\<rparr>]
      sampleJSONparse sampleNodeFromJson sampleMkBlockId
      \<lparr>attributes = [(''data-type'', ''Text''), (''data-content'', ''blk-old'')]\<rparr> (0::nat)
    = Inr (Some \<lparr>t = ''Text'', blockId = ''blk-new'', textContent = Some [Insert ''hi'' []]\<rparr>, 1)"
  using divHandler_clones_with_minted_id
    [where element = "\<lparr>attributes = [(''data-type'', ''Text''), (''data-content'', ''blk-old'')]\<rparr>"
       and dataType = "''Text''"
       and blockRegistry = "[\<lparr>name = ''Text'', editable = None, OnPaste = None\<rparr>]"
       and blockDef = "\<lparr>name = ''Text'', editable = None, OnPaste = None\<rparr>"
       and jsonData = "''blk-old''" and js = "''blk-old''"
       and JSON_parse = sampleJSONparse
       and blockyNodeFromJsonNode = sampleNodeFromJson
       and node = "\<lparr>t = ''Text'', blockId = ''blk-old'', textContent = Some [Insert ''hi'' []]\<rparr>"
       and mkBlockId = sampleMkBlockId and g = "0::nat" and newId = "''blk-new''"
       and g' = "1::nat"]
  by (simp add: getAttribute_def getBlockDefByName_def cloneWithId_def sampleJSONparse_def
        sampleNodeFromJson_def sampleMkBlockId_def)

text \<open>
  The generator that numbers its ids mints \<open>blk-new\<close> first. For a pasted element whose
  \<^verbatim>\<open>data-content\<close> stores a block with this very id, the handler returns an element
  that bears the id stored in \<^verbatim>\<open>data-content\<close>.
\<close>

theorem divHandler_stored_id_counterexample:
  "sampleNodeFromJson ''blk-new''
     = Inr (BlockNode \<lparr>t = ''Text'', blockId = ''blk-new'', textContent = Some [Insert ''hi'' []]\<rparr>)
   \<and> divHandler [\<lparr>name = ''Text'', editable = None, OnPaste = None\<rparr>]
      sampleJSONparse sampleNodeFromJson sampleMkBlockId
      \<lparr>attributes = [(''data-type'', ''Text''), (''data-content'', ''blk-new'')]\<rparr> (0::nat)
    = Inr (Some \<lparr>t = ''Text'', blockId = ''blk-new'', textContent = Some [Insert ''hi'' []]\<rparr>, 1)"
  by (simp add: divHandler_def getAttribute_def getBlockDefByName_def cloneWithId_def
        sampleJSONparse_def sampleNodeFromJson_def sampleMkBlockId_def)

section \<open>Properties of the editor: composition\<close>

lemma dispatch_inputs_composing:
  "composing ed \<Longrightarrow> foldl (dispatch h) ed (replicate n InputEvent) = ed"
  by (induction n) (simp_all add: onInput_def)

text \<open>
  Claim C9. While the composing flag is set, an input event leaves the editor as it is:
  the content diff is not run and nothing is applied to the state. After
  \<^verbatim>\<open>compositionstart\<close> any number of input events leaves the editor with the flag set
  and nothing else changed. \<^verbatim>\<open>compositionend\<close> clears the flag and then runs the
  content diff once, on the editor with the flag cleared; so does the whole sequence from
  \<^verbatim>\<open>compositionstart\<close> over the input events to \<^verbatim>\<open>compositionend\<close>.
\<close>

theorem composing_suppresses_input:
  "(composing ed \<longrightarrow> dispatch handleContentChanged ed InputEvent = ed)
   \<and> dispatchAll handleContentChanged (CompositionStart # replicate n InputEvent) ed
       = ed\<lparr>composing := True\<rparr>
   \<and> dispatch handleContentChanged ed CompositionEnd
       = handleContentChanged (ed\<lparr>composing := False\<rparr>)
   \<and> dispatchAll handleContentChanged (CompositionStart # replicate n InputEvent @ [CompositionEnd]) ed
       = handleContentChanged (ed\<lparr>composing := False\<rparr>)"
proof -
  have 1: "foldl (dispatch handleContentChanged) (ed\<lparr>composing := True\<rparr>) (replicate n InputEvent)
            = ed\<lparr>composing := True\<rparr>"
    by (rule dispatch_inputs_composing) simp
  show ?thesis
    by (simp add: dispatchAll_def handleCompositionStart_def handleCompositionEnd_def onInput_def 1)
qed

theorem composing_suppresses_input_witness:
  "dispatch (\<lambda>e. e\<lparr>idGenerator := Suc (idGenerator e)\<rparr>)
      \<lparr>composing = True, docState = \<lparr>parentId = ''doc'', nodes = [], docCursor = None\<rparr>,
        registry = [], idGenerator = (0::nat)\<rparr> InputEvent
     = \<lparr>composing = True, docState = \<lparr>parentId = ''doc'', nodes = [], docCursor = None\<rparr>,
        registry = [], idGenerator = 0\<rparr>
   \<and> dispatchAll (\<lambda>e. e\<lparr>idGenerator := Suc (idGenerator e)\<rparr>)
      [CompositionStart, InputEvent, InputEvent, CompositionEnd]
      \<lparr>composing = False, docState = \<lparr>parentId = ''doc'', nodes = [], docCursor = None\<rparr>,
        registry = [], idGenerator = (0::nat)\<rparr>
     = \<lparr>composing = False, docState = \<lparr>parentId = ''doc'', nodes = [], docCursor = None\<rparr>,
        registry = [], idGenerator = 1\<rparr>"
  using composing_suppresses_input [of
      "\<lparr>composing = True, docState = \<lparr>parentId = ''doc'', nodes = [], docCursor = None\<rparr>,
        registry = [], idGenerator = (0::nat)\<rparr>"
      "\<lambda>e. e\<lparr>idGenerator := Suc (idGenerator e)\<rparr>" 2]
    composing_suppresses_input [of
      "\<lparr>composing = False, docState = \<lparr>parentId = ''doc'', nodes = [], docCursor = None\<rparr>,
        registry = [], idGenerator = (0::nat)\<rparr>"
      "\<lambda>e. e\<lparr>idGenerator := Suc (idGenerator e)\<rparr>" 2]
  by (simp add: numeral_2_eq_2)

section \<open>Properties of deltas\<close>

lemma Delta_length_atoms: "Delta_length d = length (atoms d)"
proof (induction d)
  case Nil
  then show ?case by (simp add: Delta_length_def)
next
  case (Cons x d)
  then show ?case by (cases x) (simp_all add: Delta_length_def)
qed

lemma isEqual_map_of: "isEqual a b \<Longrightarrow> map_of a = map_of b"
proof (rule ext)
  fix k
  assume eq: "isEqual a b"
  show "map_of a k = map_of b k"
  proof (cases "k \<in> set (map fst a @ map fst b)")
    case True
    then show ?thesis using eq by (simp add: isEqual_def list_all_iff)
  next
    case False
    then have "map_of a k = None" "map_of b k = None"
      by (simp_all add: map_of_eq_None_iff)
    then show ?thesis by simp
  qed
qed

lemma attrMaps_append: "attrMaps (xs @ ys) = attrMaps xs @ attrMaps ys"
  by (simp add: attrMaps_def)

lemma attrMaps_take: "attrMaps (take n xs) = take n (attrMaps xs)"
  by (simp add: attrMaps_def take_map)

lemma attrMaps_drop: "attrMaps (drop n xs) = drop n (attrMaps xs)"
  by (simp add: attrMaps_def drop_map)

lemma length_attrMaps: "length (attrMaps xs) = length xs"
  by (simp add: attrMaps_def)

lemma attrMaps_of_atoms: "attrMaps (atoms (of_atoms xs)) = attrMaps xs"
proof (induction xs)
  case Nil
  then show ?case by simp
next
  case (Cons x xs)
  obtain c a where x: "x = (c, a)" by (cases x)
  show ?case
  proof (cases "of_atoms xs")
    case Nil
    with Cons x show ?thesis by (simp add: attrMaps_def)
  next
    case (Cons y d)
    show ?thesis
    proof (cases y)
      case (Insert s a')
      show ?thesis
      proof (cases "isEqual a a'")
        case True
        then have "map_of a = map_of a'" by (rule isEqual_map_of)
        with Cons.IH Cons Insert x True show ?thesis by (simp add: attrMaps_def comp_def)
      next
        case False
        with Cons.IH Cons Insert x show ?thesis by (simp add: attrMaps_def)
      qed
    next
      case (Retain n a')
      with Cons.IH Cons x show ?thesis by (simp add: attrMaps_def)
    next
      case (Delete n)
      with Cons.IH Cons x show ?thesis by (simp add: attrMaps_def)
    qed
  qed
qed

lemma chars_of_atoms: "chars (of_atoms xs) = attrMaps xs"
  by (simp add: chars_def attrMaps_of_atoms)

lemma length_chars: "length (chars d) = Delta_length d"
  by (simp add: chars_def length_attrMaps Delta_length_atoms)

lemma map_of_filter_keys:
  "map_of (filter (\<lambda>(k, v). k \<notin> K) a) k = (if k \<in> K then None else map_of a k)"
  by (induction a) auto

lemma map_of_AttributeMap_compose:
  "map_of (AttributeMap_compose a0 a False) = compose_map (map_of a0) a"
  by (rule ext)
     (simp add: AttributeMap_compose_def compose_map_def map_add_def map_of_filter_keys
           split: option.splits)

lemma attrMaps_apply_edit: "attrMaps (apply_edit e xs) = apply_chars e (attrMaps xs)"
proof (induction e xs rule: apply_edit.induct)
  case (2 n a e doc)
  have "attrMaps (map (\<lambda>(c, a0). (c, AttributeMap_compose a0 a False)) (take n doc))
        = map (\<lambda>(c, m). (c, compose_map m a)) (take n (attrMaps doc))"
    by (simp add: attrMaps_def take_map map_of_AttributeMap_compose split_def)
  with 2 show ?case by (simp add: attrMaps_append attrMaps_drop)
next
  case (3 s a e doc)
  have "attrMaps (map (\<lambda>c. (c, a)) s) = map (\<lambda>c. (c, map_of a)) s"
    by (simp add: attrMaps_def)
  with 3 show ?case by (simp add: attrMaps_append)
qed (simp_all add: attrMaps_drop)

lemma chars_Delta_compose: "chars (Delta_compose d e) = apply_chars e (chars d)"
  unfolding Delta_compose_def chars_of_atoms attrMaps_apply_edit by (simp add: chars_def)

lemma isDocument_Cons:
  "isDocument (x # d) \<longleftrightarrow> (\<exists>s a. x = Insert s a) \<and> isDocument d"
  by (cases x) (simp_all add: isDocument_def)


lemma atoms_drop_ops: "isDocument d \<Longrightarrow> atoms (drop_ops n d) = drop n (atoms d)"
proof (induction n d rule: drop_ops.induct)
  case (2 n x xs)
  then show ?case by (auto simp: isDocument_Cons drop_map)
qed simp

lemma isDocument_take_ops: "isDocument d \<Longrightarrow> isDocument (take_ops n d)"
proof (induction n d rule: take_ops.induct)
  case (2 n x xs)
  then show ?case by (cases x) (auto simp: isDocument_Cons isDocument_def)
qed simp

lemma atoms_take_ops: "isDocument d \<Longrightarrow> atoms (take_ops n d) = take n (atoms d)"
proof (induction n d rule: take_ops.induct)
  case (2 n x xs)
  then show ?case by (auto simp: isDocument_Cons take_map)
qed simp

lemma compose_map_Nil: "compose_map m [] = m"
  by (simp add: compose_map_def)


lemma apply_chars_retain_plain:
  "apply_chars (Retain n [] # e) doc = take n doc @ apply_chars e (drop n doc)"
  by (simp add: compose_map_Nil split_def)

lemma apply_chars_cut:
  assumes "k \<le> length doc"
  shows "apply_chars (Delta_delete (length doc - k) (Delta_retain k None [])) doc = take k doc"
proof (cases "k = 0")
  case True
  then show ?thesis by (simp add: Delta_delete_def Delta_retain_def push_def)
next
  case False
  then have r: "Delta_retain k None [] = [Retain k []]"
    by (simp add: Delta_retain_def push_def)
  show ?thesis
  proof (cases "length doc - k = 0")
    case True
    with assms have kl: "k = length doc" by simp
    have 1: "apply_chars [Retain k []] doc = take k doc"
      by (simp add: kl compose_map_Nil split_def)
    have 2: "Delta_delete (length doc - k) (Delta_retain k None []) = [Retain k []]"
      unfolding r by (simp add: Delta_delete_def True)
    show ?thesis unfolding 2 by (rule 1)
  next
    case False
    then have "Delta_delete (length doc - k) [Retain k []] = [Retain k [], Delete (length doc - k)]"
      by (simp add: Delta_delete_def push_def)
    then show ?thesis by (simp add: r compose_map_Nil split_def)
  qed
qed




section \<open>Properties of the controller: deleting the selection\<close>

text \<open>Lists of blocks with distinct ids.\<close>


lemma find_append_None:
  "find P xs = None \<Longrightarrow> find P (xs @ ys) = find P ys"
  by (induction xs) (auto split: if_splits)








lemma chars_slice_tail: "isDocument d \<Longrightarrow> chars (Delta_slice n None d) = drop n (chars d)"
  by (simp add: Delta_slice_def chars_def atoms_drop_ops attrMaps_drop)





lemma plainText_chars: "plainText d = map fst (chars d)"
  by (simp add: plainText_def chars_def attrMaps_def comp_def split_def)








section \<open>Properties of the controller: formatting the selection\<close>

lemma find_Some_dropWhile:
  "find P xs = Some b \<Longrightarrow> \<exists>rest. dropWhile (\<lambda>x. \<not> P x) xs = b # rest"
  by (induction xs) (auto split: if_splits)

lemma find_map_preserving:
  assumes "\<And>x. P (f x) = P x"
  shows "find P (map f xs) = map_option f (find P xs)"
  by (induction xs) (simp_all add: assms)

lemma split_single_block:
  assumes b: "getBlockElementById st i = Some b" and d: "textContent b = Some d"
  shows "splitCursorStateByBlocks st \<lparr>startId = i, startOffset = s, endId = i, endOffset = e\<rparr>
           = [\<lparr>startId = i, startOffset = s, endId = i, endOffset = e\<rparr>]"
proof -
  have bi: "blockId b = i"
    using b find_blockId [of i "body st" b] by (simp add: getBlockElementById_def)
  obtain rest where "dropWhile (\<lambda>x. blockId x \<noteq> i) (body st) = b # rest"
    using find_Some_dropWhile [of "\<lambda>x. blockId x = i" "body st" b] b
    by (auto simp: getBlockElementById_def)
  then show ?thesis
    by (simp add: splitCursorStateByBlocks_def d bi)
qed

lemma toggleKeys_bold:
  "toggleKeys x [''bold''] [(''bold'', ABool True)]
     = [(''bold'', if truthy (map_of (op_attributes x) ''bold'') then ANull else ABool True)]"
  by (simp add: toggleKeys_def)

lemma formatTextChangeset_single:
  assumes b: "getBlockElementById st i = Some b"
    and tb: "t b = TextBlock_Name" and d: "textContent b = Some d"
  shows "formatTextChangeset st \<lparr>startId = i, startOffset = s, endId = i, endOffset = e\<rparr>
            (Some [(''bold'', ABool True)])
         = Inr \<lparr>operations =
                  [TextEdit i ''textContent''
                     (Delta_retain (e - s)
                        (Some [(''bold'',
                                if length (Delta_slice s (Some e) d) = 1
                                   \<and> truthy (map_of (op_attributes (Delta_slice s (Some e) d ! 0)) ''bold'')
                                then ANull else ABool True)])
                        (Delta_retain s None []))],
                afterCursor = None\<rparr>"
proof -
  have bi: "blockId b = i"
    using b find_blockId [of i "body st" b] by (simp add: getBlockElementById_def)
  show ?thesis
    unfolding formatTextChangeset_def split_single_block [OF b d]
    by (simp add: b tb d Let_def toggleKeys_bold textEdit_def newChangeset_def bi)
qed

lemma compose_map_single:
  "compose_map m [(k, v)] = (if v = ANull then m(k := None) else m(k \<mapsto> v))"
  by (rule ext) (simp add: compose_map_def)

lemma apply_chars_format:
  assumes "s < e"
  shows "apply_chars (Delta_retain (e - s) (Some [(k, v)]) (Delta_retain s None [])) cs
         = take s cs
           @ map (\<lambda>(c, m). (c, if v = ANull then m(k := None) else m(k \<mapsto> v)))
               (take (e - s) (drop s cs))
           @ drop e cs"
proof (cases "s = 0")
  case True
  with assms have "Delta_retain (e - s) (Some [(k, v)]) (Delta_retain s None []) = [Retain e [(k, v)]]"
    by (simp add: Delta_retain_def push_def)
  then show ?thesis using True by (simp add: compose_map_single)
next
  case False
  with assms have "Delta_retain (e - s) (Some [(k, v)]) (Delta_retain s None [])
      = [Retain s [], Retain (e - s) [(k, v)]]"
    by (simp add: Delta_retain_def push_def isEqual_def)
  then show ?thesis using assms by (simp add: compose_map_single compose_map_Nil split_def)
qed

text \<open>
  Claim C3, amended. Let an editor be mounted and let the cursor be open inside one block
  of type \<^verbatim>\<open>Text\<close>, from offset \<open>s\<close> to a larger offset \<open>e\<close> within its text, and
  let the requested attributes be \<^verbatim>\<open>{bold: true}\<close>. The changeset of
  \<open>formatTextOnCursor\<close> holds one text edit of this block: retain \<open>s\<close>, then retain
  \<open>e - s\<close> with \<^verbatim>\<open>{bold: v}\<close>. Here \<open>v\<close> is \<^verbatim>\<open>null\<close> when the selected range is one
  single operation whose attributes carry a truthy \<^verbatim>\<open>bold\<close>; otherwise (several
  operations in the range, or a single one without \<^verbatim>\<open>bold\<close>) \<open>v\<close> is \<^verbatim>\<open>true\<close>.
  After the call the characters of the range have \<^verbatim>\<open>bold\<close> unset in the first case and
  \<^verbatim>\<open>bold = true\<close> in the second; the characters outside the range, the other
  attributes and the text itself are unchanged, and the version is one higher.
\<close>

theorem formatText_bold_toggle:
  assumes ed: "editor c = Some ed"
    and b: "getBlockElementById (state c) i = Some b"
    and tb: "t b = TextBlock_Name" and d: "textContent b = Some d"
    and se: "s < e" and len: "e \<le> Delta_length d"
    and cur: "cur = \<lparr>startId = i, startOffset = s, endId = i, endOffset = e\<rparr>"
    and v: "v = (if length (Delta_slice s (Some e) d) = 1
                    \<and> truthy (map_of (op_attributes (Delta_slice s (Some e) d ! 0)) ''bold'')
                 then ANull else ABool True)"
  shows "formatTextChangeset (state c) cur (Some [(''bold'', ABool True)])
           = Inr \<lparr>operations =
                    [TextEdit i ''textContent''
                       (Delta_retain (e - s) (Some [(''bold'', v)]) (Delta_retain s None []))],
                  afterCursor = None\<rparr>
         \<and> (\<exists>c' new. formatTextOnCursor c cur (Some [(''bold'', ABool True)]) = Inr c'
               \<and> getBlockElementById (state c') i = Some (b\<lparr>textContent := Some new\<rparr>)
               \<and> version (state c') = version (state c) + 1
               \<and> chars new
                    = take s (chars d)
                      @ map (\<lambda>(ch, m). (ch, if v = ANull then m(''bold'' := None)
                                              else m(''bold'' \<mapsto> ABool True)))
                          (take (e - s) (drop s (chars d)))
                      @ drop e (chars d)
               \<and> plainText new = plainText d)"
proof -
  let ?D = "Delta_retain (e - s) (Some [(''bold'', v)]) (Delta_retain s None [])"
  let ?chg = "\<lparr>operations = [TextEdit i ''textContent'' ?D], afterCursor = None\<rparr>"
  let ?new = "Delta_compose d ?D"
  let ?f = "\<lambda>x. if blockId x = i \<and> ''textContent'' = ''textContent''
                then x\<lparr>textContent := map_option (\<lambda>m. Delta_compose m ?D) (textContent x)\<rparr>
                else x"
  let ?c' = "c\<lparr>state := Changeset_apply \<lparr>refreshCursor = True\<rparr> ?chg (state c)\<rparr>"
  have bi: "blockId b = i"
    using b find_blockId [of i "body (state c)" b] by (simp add: getBlockElementById_def)
  have chg: "formatTextChangeset (state c) cur (Some [(''bold'', ABool True)]) = Inr ?chg"
    unfolding cur v by (rule formatTextChangeset_single [OF b tb d])
  have op: "\<not> isCollapsed cur"
    using se by (simp add: cur isCollapsed_def)
  have run: "formatTextOnCursor c cur (Some [(''bold'', ABool True)]) = Inr ?c'"
    by (simp add: formatTextOnCursor_def ed op chg)
  have "getBlockElementById (state ?c') i = map_option ?f (getBlockElementById (state c) i)"
    unfolding getBlockElementById_def
    by (simp add: body_Changeset_apply find_map_preserving)
  then have look: "getBlockElementById (state ?c') i = Some (b\<lparr>textContent := Some ?new\<rparr>)"
    by (simp add: b bi d)
  have ver: "version (state ?c') = version (state c) + 1"
    by (simp add: version_Changeset_apply)
  have ch: "chars ?new
        = take s (chars d)
          @ map (\<lambda>(ch, m). (ch, if v = ANull then m(''bold'' := None) else m(''bold'' \<mapsto> v)))
              (take (e - s) (drop s (chars d)))
          @ drop e (chars d)"
    unfolding chars_Delta_compose by (rule apply_chars_format [OF se])
  have vv: "v \<noteq> ANull \<Longrightarrow> v = ABool True" using v by (simp split: if_splits)
  have ch': "chars ?new
        = take s (chars d)
          @ map (\<lambda>(ch, m). (ch, if v = ANull then m(''bold'' := None) else m(''bold'' \<mapsto> ABool True)))
              (take (e - s) (drop s (chars d)))
          @ drop e (chars d)"
    using ch vv by (cases "v = ANull") simp_all
  have "map fst (chars ?new) = map fst (take s (chars d) @ take (e - s) (drop s (chars d)) @ drop e (chars d))"
    unfolding ch by (simp add: comp_def split_def)
  also have "\<dots> = map fst (chars d)"
    using se by (metis add_diff_inverse_nat append_take_drop_id drop_drop less_imp_le_nat not_less add.commute)
  finally have pt: "plainText ?new = plainText d"
    by (simp add: plainText_chars)
  from chg run look ver ch' pt show ?thesis by blast
qed

lemmas format_eval_defs = formatTextOnCursor_def formatTextChangeset_def splitCursorStateByBlocks_def
  getBlockElementById_def TextBlock_Name_def toggleKeys_def Delta_retain_def Delta_slice_def
  Delta_length_def Delta_compose_def push_def isEqual_def AttributeMap_compose_def
  Changeset_apply_def Let_def textEdit_def newChangeset_def isCollapsed_def

theorem formatText_bold_toggle_witness:
  "formatTextChangeset
      \<lparr>body = [\<lparr>t = ''Text'', blockId = ''b1'', textContent = Some [Insert ''hello world'' []]\<rparr>],
       cursorState = None, version = 0\<rparr>
      \<lparr>startId = ''b1'', startOffset = 3, endId = ''b1'', endOffset = 8\<rparr>
      (Some [(''bold'', ABool True)])
    = Inr \<lparr>operations = [TextEdit ''b1'' ''textContent'' [Retain 3 [], Retain 5 [(''bold'', ABool True)]]],
           afterCursor = None\<rparr>
   \<and> formatTextOnCursor
      \<lparr>editor = Some MountedEditor,
       state = \<lparr>body = [\<lparr>t = ''Text'', blockId = ''b1'', textContent = Some [Insert ''hello world'' []]\<rparr>],
                cursorState = None, version = 0\<rparr>\<rparr>
      \<lparr>startId = ''b1'', startOffset = 3, endId = ''b1'', endOffset = 8\<rparr>
      (Some [(''bold'', ABool True)])
    = Inr \<lparr>editor = Some MountedEditor,
           state = \<lparr>body = [\<lparr>t = ''Text'', blockId = ''b1'',
                              textContent = Some [Insert ''hel'' [],
                                                  Insert ''lo wo'' [(''bold'', ABool True)],
                                                  Insert ''rld'' []]\<rparr>],
                    cursorState = None, version = 1\<rparr>\<rparr>
   \<and> formatTextChangeset
      \<lparr>body = [\<lparr>t = ''Text'', blockId = ''b1'',
                 textContent = Some [Insert ''ab'' [(''bold'', ABool True)], Insert ''cd'' []]\<rparr>],
       cursorState = None, version = 0\<rparr>
      \<lparr>startId = ''b1'', startOffset = 0, endId = ''b1'', endOffset = 2\<rparr>
      (Some [(''bold'', ABool True)])
    = Inr \<lparr>operations = [TextEdit ''b1'' ''textContent'' [Retain 2 [(''bold'', ANull)]]],
           afterCursor = None\<rparr>"
proof -
  let ?b = "\<lparr>t = ''Text'', blockId = ''b1'', textContent = Some [Insert ''hello world'' []]\<rparr>"
  let ?c = "\<lparr>editor = Some MountedEditor,
            state = \<lparr>body = [?b], cursorState = None, version = 0\<rparr>\<rparr>"
  let ?b' = "\<lparr>t = ''Text'', blockId = ''b1'',
              textContent = Some [Insert ''ab'' [(''bold'', ABool True)], Insert ''cd'' []]\<rparr>"
  let ?c' = "\<lparr>editor = Some MountedEditor,
             state = \<lparr>body = [?b'], cursorState = None, version = 0\<rparr>\<rparr>"
  note i1 = formatText_bold_toggle [where c = ?c and ed = MountedEditor and i = "''b1''" and b = ?b
      and d = "[Insert ''hello world'' []]" and s = 3 and e = 8
      and cur = "\<lparr>startId = ''b1'', startOffset = 3, endId = ''b1'', endOffset = 8\<rparr>"
      and v = "ABool True"]
  note i2 = formatText_bold_toggle [where c = ?c' and ed = MountedEditor and i = "''b1''" and b = ?b'
      and d = "[Insert ''ab'' [(''bold'', ABool True)], Insert ''cd'' []]" and s = 0 and e = 2
      and cur = "\<lparr>startId = ''b1'', startOffset = 0, endId = ''b1'', endOffset = 2\<rparr>"
      and v = "ANull"]
  have h1: "formatTextChangeset (state ?c)
      \<lparr>startId = ''b1'', startOffset = 3, endId = ''b1'', endOffset = 8\<rparr> (Some [(''bold'', ABool True)])
    = Inr \<lparr>operations = [TextEdit ''b1'' ''textContent''
             (Delta_retain (8 - 3) (Some [(''bold'', ABool True)]) (Delta_retain 3 None []))],
           afterCursor = None\<rparr>"
    using i1 by (simp add: getBlockElementById_def TextBlock_Name_def Delta_slice_def Delta_length_def)
  have h2: "formatTextChangeset (state ?c')
      \<lparr>startId = ''b1'', startOffset = 0, endId = ''b1'', endOffset = 2\<rparr> (Some [(''bold'', ABool True)])
    = Inr \<lparr>operations = [TextEdit ''b1'' ''textContent''
             (Delta_retain (2 - 0) (Some [(''bold'', ANull)]) (Delta_retain 0 None []))],
           afterCursor = None\<rparr>"
    using i2 by (simp add: getBlockElementById_def TextBlock_Name_def Delta_slice_def Delta_length_def)
  have h3: "formatTextOnCursor ?c
      \<lparr>startId = ''b1'', startOffset = 3, endId = ''b1'', endOffset = 8\<rparr>
      (Some [(''bold'', ABool True)])
    = Inr \<lparr>editor = Some MountedEditor,
           state = \<lparr>body = [\<lparr>t = ''Text'', blockId = ''b1'',
                              textContent = Some [Insert ''hel'' [],
                                                  Insert ''lo wo'' [(''bold'', ABool True)],
                                                  Insert ''rld'' []]\<rparr>],
                    cursorState = None, version = 1\<rparr>\<rparr>"
    by (simp add: format_eval_defs)
  from h1 h2 h3 show ?thesis
    by (simp add: Delta_retain_def push_def isEqual_def)
qed

text \<open>
  A range of two operations that both carry \<^verbatim>\<open>bold = true\<close>: the emitted retain
  carries \<^verbatim>\<open>{bold: true}\<close>, not \<^verbatim>\<open>{bold: null}\<close>.
\<close>

theorem formatText_all_bold_counterexample:
  "Delta_slice 0 (Some 4) [Insert ''ab'' [(''bold'', ABool True)],
                           Insert ''cd'' [(''bold'', ABool True), (''italic'', ABool True)]]
     = [Insert ''ab'' [(''bold'', ABool True)],
        Insert ''cd'' [(''bold'', ABool True), (''italic'', ABool True)]]
   \<and> formatTextChangeset
      \<lparr>body = [\<lparr>t = ''Text'', blockId = ''b1'',
                 textContent = Some [Insert ''ab'' [(''bold'', ABool True)],
                                     Insert ''cd'' [(''bold'', ABool True), (''italic'', ABool True)]]\<rparr>],
       cursorState = None, version = 0\<rparr>
      \<lparr>startId = ''b1'', startOffset = 0, endId = ''b1'', endOffset = 4\<rparr>
      (Some [(''bold'', ABool True)])
    = Inr \<lparr>operations = [TextEdit ''b1'' ''textContent'' [Retain 4 [(''bold'', ABool True)]]],
           afterCursor = None\<rparr>"
  by (simp add: format_eval_defs)

section \<open>Properties of the editor: Enter\<close>

text \<open>Lists of nodes with distinct ids.\<close>

lemma find_node_distinct:
  assumes "distinct (map nodeId (pre @ n # post))"
  shows "find (\<lambda>x. nodeId x = nodeId n) (pre @ n # post) = Some n"
proof -
  have "nodeId n \<notin> nodeId ` set pre" using assms by auto
  then have "find (\<lambda>x. nodeId x = nodeId n) pre = None"
    unfolding find_None_iff by (metis imageI)
  then show ?thesis by (simp add: find_append_None)
qed

lemma selectionChanged_then_cursor:
  "(selectionChanged selection e)\<lparr>docState := (docState (selectionChanged selection e))\<lparr>docCursor := x\<rparr>\<rparr>
     = e\<lparr>docState := (docState e)\<lparr>docCursor := x\<rparr>\<rparr>"
  by (cases selection) (simp_all add: selectionChanged_def)

lemma slice_chars_of_delta:
  "slice_chars (concat (map (\<lambda>x. case x of Insert s a \<Rightarrow> [(s, a)] | _ \<Rightarrow> []) d)) = chars d"
proof (induction d)
  case Nil
  then show ?case by (simp add: slice_chars_def chars_def attrMaps_def)
next
  case (Cons x d)
  then show ?case
    by (cases x) (simp_all add: slice_chars_def chars_def attrMaps_def comp_def)
qed

lemma slice_chars_TextModel_slice:
  "isDocument (modelDelta m) \<Longrightarrow> slice_chars (TextModel_slice k m) = drop k (chars (modelDelta m))"
  unfolding TextModel_slice_def slice_chars_of_delta by (rule chars_slice_tail)

lemma apply_chars_insert_at_end:
  "apply_chars (Delta_insert content (Some attrs) (Delta_retain (length doc) None [])) doc
     = doc @ map (\<lambda>c. (c, map_of attrs)) content"
proof (cases "doc = []")
  case True
  then show ?thesis by (simp add: Delta_insert_def Delta_retain_def push_def)
next
  case False
  then have r: "Delta_retain (length doc) None [] = [Retain (length doc) []]"
    by (simp add: Delta_retain_def push_def)
  show ?thesis
  proof (cases "content = []")
    case True
    then show ?thesis by (simp add: r Delta_insert_def compose_map_Nil split_def)
  next
    case False
    then have "Delta_insert content (Some attrs) [Retain (length doc) []]
        = [Retain (length doc) [], Insert content attrs]"
      by (simp add: Delta_insert_def push_def)
    then show ?thesis by (simp add: r compose_map_Nil split_def)
  qed
qed

lemma chars_TextModel_insert_at_end:
  assumes "ptr = length (chars (modelDelta m))"
  shows "chars (modelDelta (TextModel_insert ptr content attrs m))
           = chars (modelDelta m) @ map (\<lambda>c. (c, map_of attrs)) content"
  unfolding assms by (simp add: TextModel_insert_def chars_Delta_compose apply_chars_insert_at_end)

lemma fill_fold:
  assumes "ptr = length (chars (modelDelta m))"
  shows "chars (modelDelta (fst (foldl (\<lambda>(m', ptr) (content, attrs).
                   (TextModel_insert ptr content attrs m', ptr + length content))
            (m, ptr) slices)))
           = chars (modelDelta m) @ slice_chars slices
         \<and> textType (fst (foldl (\<lambda>(m', ptr) (content, attrs).
                   (TextModel_insert ptr content attrs m', ptr + length content))
            (m, ptr) slices)) = textType m"
  using assms
proof (induction slices arbitrary: m ptr)
  case Nil
  then show ?case by (simp add: slice_chars_def)
next
  case (Cons x slices)
  obtain content attrs where x: "x = (content, attrs)" by (cases x)
  let ?m = "TextModel_insert ptr content attrs m"
  have ch: "chars (modelDelta ?m) = chars (modelDelta m) @ map (\<lambda>c. (c, map_of attrs)) content"
    by (rule chars_TextModel_insert_at_end [OF Cons.prems])
  then have len: "ptr + length content = length (chars (modelDelta ?m))"
    using Cons.prems by simp
  have tt: "textType ?m = textType m" by (simp add: TextModel_insert_def)
  show ?case
    using Cons.IH [OF len] ch tt by (simp add: x slice_chars_def)
qed

lemma fillSlices_chars:
  assumes "modelDelta m = []"
  shows "chars (modelDelta (fillSlices slices m)) = slice_chars slices"
    and "textType (fillSlices slices m) = textType m"
  using fill_fold [of 0 m slices] assms
  by (simp_all add: fillSlices_def chars_def attrMaps_def)

lemma chars_TextModel_delete_tail:
  assumes "k \<le> TextModel_length m"
  shows "chars (modelDelta (TextModel_delete k (TextModel_length m - k) m)) = take k (chars (modelDelta m))"
    and "textType (TextModel_delete k (TextModel_length m - k) m) = textType m"
proof -
  have "TextModel_length m = length (chars (modelDelta m))"
    by (simp add: TextModel_length_def length_chars)
  then show "chars (modelDelta (TextModel_delete k (TextModel_length m - k) m)) = take k (chars (modelDelta m))"
    using assms apply_chars_cut [of k "chars (modelDelta m)"]
    by (simp add: TextModel_delete_def chars_Delta_compose)
  show "textType (TextModel_delete k (TextModel_length m - k) m) = textType m"
    by (simp add: TextModel_delete_def)
qed

lemma setNodeData_distinct:
  assumes "distinct (map nodeId (pre @ n # post))"
  shows "map (\<lambda>x. if nodeId x = nodeId n then x\<lparr>data := Some m\<rparr> else x) (pre @ n # post)
           = pre @ n\<lparr>data := Some m\<rparr> # post"
proof -
  have "nodeId n \<notin> nodeId ` set pre" "nodeId n \<notin> nodeId ` set post" using assms by auto
  then have "\<forall>x \<in> set pre \<union> set post. nodeId x \<noteq> nodeId n" by (metis UnE imageI)
  then have "map (\<lambda>x. if nodeId x = nodeId n then x\<lparr>data := Some m\<rparr> else x) ys = ys"
    if "set ys \<subseteq> set pre \<union> set post" for ys
    using that by (induction ys) auto
  from this [of pre] this [of post] show ?thesis by simp
qed

lemma insertAfter_distinct:
  assumes "i \<notin> nodeId ` set pre" and "nodeId n = i"
  shows "insertAfter i new (pre @ n # post) = pre @ n # new # post"
  using assms by (induction pre) auto

lemma commitNewLine_split:
  assumes cur: "docCursor (docState ed) = Some (CollapsedCursor i k)"
    and ns: "nodes (docState ed) = pre @ node # post"
    and dist: "distinct (map nodeId (nodes (docState ed)))"
    and ni: "nodeId node = i"
    and dm: "data node = Some m" and doc: "isDocument (modelDelta m)"
    and k: "k \<le> TextModel_length m"
    and mk: "mkBlockId (idGenerator ed) = (newId, g')"
  shows "\<exists>orig new.
     commitNewLine mkBlockId selection ed
       = ed\<lparr>docState :=
              \<lparr>parentId = parentId (docState ed),
               nodes = pre @ node\<lparr>data := Some orig\<rparr>
                         # \<lparr>nodeId = newId, flags = getBlockIdByName (registry ed) TextBlockName,
                            data = Some new\<rparr>
                         # post,
               docCursor = Some (CollapsedCursor newId 0)\<rparr>,
            idGenerator := g'\<rparr>
     \<and> textType orig = textType m
     \<and> chars (modelDelta orig) = take k (chars (modelDelta m))
     \<and> textType new = (if textType m = Bulleted then Bulleted else Normal)
     \<and> chars (modelDelta new) = drop k (chars (modelDelta m))"
proof -
  let ?new = "fillSlices (TextModel_slice k m)
                (if textType m \<in> preservedTextType then newTextModel\<lparr>textType := textType m\<rparr>
                 else newTextModel)"
  let ?orig = "TextModel_delete k (TextModel_length m - k) m"
  let ?nb = "\<lparr>nodeId = newId, flags = getBlockIdByName (registry ed) TextBlockName, data = Some ?new\<rparr>"
  let ?acts = "[NewBlock TextBlockName (parentId (docState ed)) newId (nodeId node) (Some ?new)]"
  let ?ed1 = "ed\<lparr>docState := setNodeData (nodeId node) ?orig (docState ed), idGenerator := g'\<rparr>"
  have dist': "distinct (map nodeId (pre @ node # post))" using dist ns by simp
  have get: "idMap_get (docState ed) i = Some node"
    unfolding idMap_get_def ns ni [symmetric] by (rule find_node_distinct [OF dist'])
  have nip: "nodeId node \<notin> nodeId ` set pre" using dist' by auto
  have set: "setNodeData (nodeId node) ?orig (docState ed)
             = (docState ed)\<lparr>nodes := pre @ node\<lparr>data := Some ?orig\<rparr> # post\<rparr>"
    unfolding setNodeData_def ns by (simp only: setNodeData_distinct [OF dist'])
  have ins: "State_applyActions (registry ed) ?acts ((docState ed)\<lparr>nodes := pre @ node\<lparr>data := Some ?orig\<rparr> # post\<rparr>)
             = (docState ed)\<lparr>nodes := pre @ node\<lparr>data := Some ?orig\<rparr> # ?nb # post\<rparr>"
    using insertAfter_distinct [OF nip, of "node\<lparr>data := Some ?orig\<rparr>" ?nb post]
    by (simp add: State_applyActions_def)
  have run: "commitNewLine mkBlockId selection ed
      = (let ed2 = applyActions selection ?acts ?ed1
         in ed2\<lparr>docState := (docState ed2)\<lparr>docCursor := Some (CollapsedCursor newId 0)\<rparr>\<rparr>)"
    by (simp add: commitNewLine_def cur get dm mk Let_def)
  also have "\<dots> = (let e = ?ed1\<lparr>docState := State_applyActions (registry ?ed1) ?acts (docState ?ed1)\<rparr>
         in e\<lparr>docState := (docState e)\<lparr>docCursor := Some (CollapsedCursor newId 0)\<rparr>\<rparr>)"
    unfolding applyActions_def Let_def
    by (simp only: list.distinct if_False selectionChanged_then_cursor)
  also have "\<dots> = ed\<lparr>docState :=
              \<lparr>parentId = parentId (docState ed),
               nodes = pre @ node\<lparr>data := Some ?orig\<rparr> # ?nb # post,
               docCursor = Some (CollapsedCursor newId 0)\<rparr>,
            idGenerator := g'\<rparr>"
    by (simp add: Let_def set ins)
  finally have res: "commitNewLine mkBlockId selection ed
      = ed\<lparr>docState :=
              \<lparr>parentId = parentId (docState ed),
               nodes = pre @ node\<lparr>data := Some ?orig\<rparr> # ?nb # post,
               docCursor = Some (CollapsedCursor newId 0)\<rparr>,
            idGenerator := g'\<rparr>" .
  have o1: "textType ?orig = textType m" and o2: "chars (modelDelta ?orig) = take k (chars (modelDelta m))"
    using chars_TextModel_delete_tail [OF k] by simp_all
  have e0: "modelDelta (if textType m \<in> preservedTextType then newTextModel\<lparr>textType := textType m\<rparr>
                 else newTextModel) = []"
    by (simp add: newTextModel_def)
  have n1: "textType ?new = (if textType m = Bulleted then Bulleted else Normal)"
    unfolding fillSlices_chars(2) [OF e0] by (simp add: preservedTextType_def newTextModel_def)
  have n2: "chars (modelDelta ?new) = drop k (chars (modelDelta m))"
    unfolding fillSlices_chars(1) [OF e0] by (rule slice_chars_TextModel_slice [OF doc])
  from res o1 o2 n1 n2 show ?thesis by blast
qed

lemmas newline_eval_defs = commitNewLine_def idMap_get_def TextModel_slice_def fillSlices_def
  TextModel_insert_def TextModel_delete_def TextModel_length_def newTextModel_def preservedTextType_def
  applyActions_def State_applyActions_def selectionChanged_def setNodeData_def getBlockIdByName_def
  TextBlockName_def sampleMkBlockId_def Delta_slice_def Delta_insert_def Delta_retain_def
  Delta_delete_def Delta_length_def Delta_compose_def push_def isEqual_def AttributeMap_compose_def
  Let_def

text \<open>
  Claim C2, amended. Let Enter be pressed while no composition is going on, and let the
  listeners of the key leave its default action unprevented; let the cursor then be
  collapsed at offset \<open>k\<close> of a text block \<open>node\<close> whose text, a delta of inserts,
  has at least \<open>k\<close> characters (all ids distinct). After \<open>handleKeyDown\<close>, which prevents the default
  action and calls \<open>commitNewLine\<close>, the block holds the characters before \<open>k\<close> and
  keeps its text type; right behind it stands a new text block with the id the generator
  minted, holding the characters from \<open>k\<close> on with their attributes; the text type of
  the new block is that of the original when this is \<open>Bulleted\<close>, the one member of the
  preserved set, and plain (\<open>Normal\<close>) otherwise; the cursor is collapsed at offset \<open>0\<close>
  of the new block. The other blocks are unchanged.
\<close>

theorem handleKeyDown_Enter_splits:
  assumes emit: "keyDown_emit e0 ed0 = (e, ed)"
    and enter: "key e = ''Enter''"
    and np: "\<not> defaultPrevented e"
    and nc: "\<not> composing ed"
    and cur: "docCursor (docState ed) = Some (CollapsedCursor i k)"
    and ns: "nodes (docState ed) = pre @ node # post"
    and dist: "distinct (map nodeId (nodes (docState ed)))"
    and ni: "nodeId node = i"
    and dm: "data node = Some m" and doc: "isDocument (modelDelta m)"
    and k: "k \<le> TextModel_length m"
    and mk: "mkBlockId (idGenerator ed) = (newId, g')"
  shows "\<exists>orig new.
     handleKeyDown keyDown_emit isBlockId mkBlockId selection e0 ed0
       = Inr (e\<lparr>defaultPrevented := True\<rparr>,
              ed\<lparr>docState :=
                   \<lparr>parentId = parentId (docState ed),
                    nodes = pre @ node\<lparr>data := Some orig\<rparr>
                              # \<lparr>nodeId = newId, flags = getBlockIdByName (registry ed) TextBlockName,
                                 data = Some new\<rparr>
                              # post,
                    docCursor = Some (CollapsedCursor newId 0)\<rparr>,
                 idGenerator := g'\<rparr>)
     \<and> textType orig = textType m
     \<and> chars (modelDelta orig) = take k (chars (modelDelta m))
     \<and> textType new = (if textType m = Bulleted then Bulleted else Normal)
     \<and> chars (modelDelta new) = drop k (chars (modelDelta m))"
proof -
  have run: "handleKeyDown keyDown_emit isBlockId mkBlockId selection e0 ed0
               = Inr (e\<lparr>defaultPrevented := True\<rparr>, commitNewLine mkBlockId selection ed)"
    using enter np nc by (simp add: handleKeyDown_def emit arrowKeys_def preventDefault_def)
  from commitNewLine_split [where mkBlockId = mkBlockId and selection = selection, OF cur ns dist ni dm doc k mk]
  show ?thesis unfolding run by blast
qed

lemmas keydown_eval_defs = handleKeyDown_def arrowKeys_def preventDefault_def handleKeyTab_def
  noKeyDownListener_def preventingKeyDownListener_def

text \<open>
  The scenario of the specification: \<open>hello world\<close> with the cursor at \<open>(b1, 5)\<close> gives
  \<open>hello\<close> in \<open>b1\<close>, \<open> world\<close> in the new block and the cursor at offset \<open>0\<close> of the
  new block.
\<close>

theorem handleKeyDown_Enter_splits_witness:
  "handleKeyDown noKeyDownListener sampleIsBlockId sampleMkBlockId None
     \<lparr>key = ''Enter'', defaultPrevented = False\<rparr>
     \<lparr>composing = False,
      docState = \<lparr>parentId = ''doc'',
                  nodes = [\<lparr>nodeId = ''b1'', flags = 0,
                            data = Some \<lparr>textType = Normal, modelDelta = [Insert ''hello world'' []]\<rparr>\<rparr>],
                  docCursor = Some (CollapsedCursor ''b1'' 5)\<rparr>,
      registry = [\<lparr>name = ''text'', editable = Some True, OnPaste = None\<rparr>],
      idGenerator = (0::nat)\<rparr>
   = Inr (\<lparr>key = ''Enter'', defaultPrevented = True\<rparr>,
     \<lparr>composing = False,
      docState = \<lparr>parentId = ''doc'',
                  nodes = [\<lparr>nodeId = ''b1'', flags = 0,
                            data = Some \<lparr>textType = Normal, modelDelta = [Insert ''hello'' []]\<rparr>\<rparr>,
                           \<lparr>nodeId = ''blk-new'', flags = 0,
                            data = Some \<lparr>textType = Normal, modelDelta = [Insert '' world'' []]\<rparr>\<rparr>],
                  docCursor = Some (CollapsedCursor ''blk-new'' 0)\<rparr>,
      registry = [\<lparr>name = ''text'', editable = Some True, OnPaste = None\<rparr>],
      idGenerator = 1\<rparr>)"
proof -
  let ?n = "\<lparr>nodeId = ''b1'', flags = 0,
             data = Some \<lparr>textType = Normal, modelDelta = [Insert ''hello world'' []]\<rparr>\<rparr>"
  let ?ed = "\<lparr>composing = False,
      docState = \<lparr>parentId = ''doc'', nodes = [?n], docCursor = Some (CollapsedCursor ''b1'' 5)\<rparr>,
      registry = [\<lparr>name = ''text'', editable = Some True, OnPaste = None\<rparr>],
      idGenerator = (0::nat)\<rparr>"
  let ?e = "\<lparr>key = ''Enter'', defaultPrevented = False\<rparr>"
  have "\<exists>orig new.
     handleKeyDown noKeyDownListener sampleIsBlockId sampleMkBlockId None ?e ?ed
       = Inr (\<lparr>key = ''Enter'', defaultPrevented = True\<rparr>,
          \<lparr>composing = False,
           docState = \<lparr>parentId = ''doc'',
                       nodes = [\<lparr>nodeId = ''b1'', flags = 0, data = Some orig\<rparr>,
                                \<lparr>nodeId = ''blk-new'', flags = 0, data = Some new\<rparr>],
                       docCursor = Some (CollapsedCursor ''blk-new'' 0)\<rparr>,
           registry = [\<lparr>name = ''text'', editable = Some True, OnPaste = None\<rparr>],
           idGenerator = 1\<rparr>)
     \<and> textType orig = Normal
     \<and> chars (modelDelta orig) = take 5 (chars [Insert ''hello world'' []])
     \<and> textType new = Normal
     \<and> chars (modelDelta new) = drop 5 (chars [Insert ''hello world'' []])"
    using handleKeyDown_Enter_splits
      [where keyDown_emit = noKeyDownListener and e0 = ?e and ed0 = ?ed
         and e = ?e and ed = ?ed and i = "''b1''" and k = 5 and pre = "[]" and node = ?n
         and post = "[]" and m = "\<lparr>textType = Normal, modelDelta = [Insert ''hello world'' []]\<rparr>"
         and mkBlockId = sampleMkBlockId and newId = "''blk-new''" and g' = 1
         and isBlockId = sampleIsBlockId and selection = None]
    by (simp add: isDocument_def TextModel_length_def Delta_length_def sampleMkBlockId_def
          getBlockIdByName_def TextBlockName_def noKeyDownListener_def)
  then obtain orig new where
    r: "handleKeyDown noKeyDownListener sampleIsBlockId sampleMkBlockId None ?e ?ed
       = Inr (\<lparr>key = ''Enter'', defaultPrevented = True\<rparr>,
          \<lparr>composing = False,
           docState = \<lparr>parentId = ''doc'',
                       nodes = [\<lparr>nodeId = ''b1'', flags = 0, data = Some orig\<rparr>,
                                \<lparr>nodeId = ''blk-new'', flags = 0, data = Some new\<rparr>],
                       docCursor = Some (CollapsedCursor ''blk-new'' 0)\<rparr>,
           registry = [\<lparr>name = ''text'', editable = Some True, OnPaste = None\<rparr>],
           idGenerator = 1\<rparr>)"
    by blast
  have c: "handleKeyDown noKeyDownListener sampleIsBlockId sampleMkBlockId None ?e ?ed
   = Inr (\<lparr>key = ''Enter'', defaultPrevented = True\<rparr>,
     \<lparr>composing = False,
      docState = \<lparr>parentId = ''doc'',
                  nodes = [\<lparr>nodeId = ''b1'', flags = 0,
                            data = Some \<lparr>textType = Normal, modelDelta = [Insert ''hello'' []]\<rparr>\<rparr>,
                           \<lparr>nodeId = ''blk-new'', flags = 0,
                            data = Some \<lparr>textType = Normal, modelDelta = [Insert '' world'' []]\<rparr>\<rparr>],
                  docCursor = Some (CollapsedCursor ''blk-new'' 0)\<rparr>,
      registry = [\<lparr>name = ''text'', editable = Some True, OnPaste = None\<rparr>],
      idGenerator = 1\<rparr>)"
    by (simp add: keydown_eval_defs newline_eval_defs)
  from r c show ?thesis by simp
qed

text \<open>
  The same block and cursor, and Enter pressed during a composition, or with a listener
  of the key that prevents the default action: the handler returns before
  \<open>commitNewLine\<close>; the block still holds \<open>hello world\<close>, no block is created and the
  cursor has not moved.
\<close>

theorem handleKeyDown_Enter_composing_counterexample:
  "handleKeyDown noKeyDownListener sampleIsBlockId sampleMkBlockId None
     \<lparr>key = ''Enter'', defaultPrevented = False\<rparr>
     \<lparr>composing = True,
      docState = \<lparr>parentId = ''doc'',
                  nodes = [\<lparr>nodeId = ''b1'', flags = 0,
                            data = Some \<lparr>textType = Normal, modelDelta = [Insert ''hello world'' []]\<rparr>\<rparr>],
                  docCursor = Some (CollapsedCursor ''b1'' 5)\<rparr>,
      registry = [\<lparr>name = ''text'', editable = Some True, OnPaste = None\<rparr>],
      idGenerator = (0::nat)\<rparr>
   = Inr (\<lparr>key = ''Enter'', defaultPrevented = False\<rparr>,
     \<lparr>composing = True,
      docState = \<lparr>parentId = ''doc'',
                  nodes = [\<lparr>nodeId = ''b1'', flags = 0,
                            data = Some \<lparr>textType = Normal, modelDelta = [Insert ''hello world'' []]\<rparr>\<rparr>],
                  docCursor = Some (CollapsedCursor ''b1'' 5)\<rparr>,
      registry = [\<lparr>name = ''text'', editable = Some True, OnPaste = None\<rparr>],
      idGenerator = 0\<rparr>)
   \<and> handleKeyDown preventingKeyDownListener sampleIsBlockId sampleMkBlockId None
     \<lparr>key = ''Enter'', defaultPrevented = False\<rparr>
     \<lparr>composing = False,
      docState = \<lparr>parentId = ''doc'',
                  nodes = [\<lparr>nodeId = ''b1'', flags = 0,
                            data = Some \<lparr>textType = Normal, modelDelta = [Insert ''hello world'' []]\<rparr>\<rparr>],
                  docCursor = Some (CollapsedCursor ''b1'' 5)\<rparr>,
      registry = [\<lparr>name = ''text'', editable = Some True, OnPaste = None\<rparr>],
      idGenerator = (0::nat)\<rparr>
   = Inr (\<lparr>key = ''Enter'', defaultPrevented = True\<rparr>,
     \<lparr>composing = False,
      docState = \<lparr>parentId = ''doc'',
                  nodes = [\<lparr>nodeId = ''b1'', flags = 0,
                            data = Some \<lparr>textType = Normal, modelDelta = [Insert ''hello world'' []]\<rparr>\<rparr>],
                  docCursor = Some (CollapsedCursor ''b1'' 5)\<rparr>,
      registry = [\<lparr>name = ''text'', editable = Some True, OnPaste = None\<rparr>],
      idGenerator = 0\<rparr>)"
  by (simp add: keydown_eval_defs)

end
